theory Spec2Isabelle
  imports Main "HOL-Library.Word"
begin

section \<open>JavaScript strings\<close>

text \<open>
  A JavaScript string is a sequence of 16-bit code units; \<open>length\<close>, \<open>charAt\<close>,
  \<open>startsWith\<close>, \<open>trim\<close> and the regular expressions of the sources all work on code
  units. \<open>lit\<close> turns an ASCII literal of the sources into its code units.
\<close>

type_synonym js_string = "16 word list"

definition lit :: "string \<Rightarrow> js_string" where
  "lit s = map (\<lambda>c. of_nat (of_char c)) s"

text \<open>
  The code units that \<open>String.prototype.trim\<close> removes and that \<open>\s\<close> matches:
  the WhiteSpace and LineTerminator productions of ECMAScript (TAB, LF, VT, FF, CR, SP,
  NBSP, the Unicode space separators, LS, PS and the byte order mark).
\<close>

definition isWhiteSpace :: "16 word \<Rightarrow> bool" where
  "isWhiteSpace c \<longleftrightarrow>
     c = 0x0009 \<or> c = 0x000A \<or> c = 0x000B \<or> c = 0x000C \<or> c = 0x000D \<or> c = 0x0020
     \<or> c = 0x00A0 \<or> c = 0x1680 \<or> (0x2000 \<le> c \<and> c \<le> 0x200A) \<or> c = 0x2028
     \<or> c = 0x2029 \<or> c = 0x202F \<or> c = 0x205F \<or> c = 0x3000 \<or> c = 0xFEFF"

definition trim :: "js_string \<Rightarrow> js_string" where
  "trim s = rev (dropWhile isWhiteSpace (rev (dropWhile isWhiteSpace s)))"

definition startsWith :: "js_string \<Rightarrow> js_string \<Rightarrow> bool" where
  "startsWith s p \<longleftrightarrow> take (length p) s = p"

definition endsWith :: "js_string \<Rightarrow> js_string \<Rightarrow> bool" where
  "endsWith s p \<longleftrightarrow> length p \<le> length s \<and> drop (length s - length p) s = p"

text \<open>\<open>s.includes(p)\<close>: \<open>p\<close> occurs in \<open>s\<close> at some position.\<close>

fun includes_str :: "js_string \<Rightarrow> js_string \<Rightarrow> bool" where
  "includes_str [] p = (p = [])"
| "includes_str (c # s) p = (startsWith (c # s) p \<or> includes_str s p)"

text \<open>\<open>parts.join(sep)\<close>.\<close>

fun join :: "js_string \<Rightarrow> js_string list \<Rightarrow> js_string" where
  "join sep [] = []"
| "join sep [x] = x"
| "join sep (x # y # ys) = x @ sep @ join sep (y # ys)"

text \<open>
  \<open>s.split(",")\<close> for a separator of one code unit: the pieces between the separators,
  empty pieces included, so the empty string splits into one empty piece.
\<close>

fun split_unit :: "16 word \<Rightarrow> js_string \<Rightarrow> js_string list" where
  "split_unit sep [] = [[]]"
| "split_unit sep (c # s) =
     (if c = sep then [] # split_unit sep s
      else (case split_unit sep s of [] \<Rightarrow> [[c]] | p # ps \<Rightarrow> (c # p) # ps))"

text \<open>
  \<open>s.split(/[...]+/)\<close> for a character class given as a predicate: every maximal run of
  separator units is one separator; a run at the start or the end of the string leaves
  an empty piece there.
\<close>

fun split_runs :: "(16 word \<Rightarrow> bool) \<Rightarrow> js_string \<Rightarrow> js_string list" where
  "split_runs sep [] = [[]]"
| "split_runs sep (c # s) =
     (if sep c then (case s of [] \<Rightarrow> [[], []]
                     | d # t \<Rightarrow> if sep d then split_runs sep s else [] # split_runs sep s)
      else (case split_runs sep s of [] \<Rightarrow> [[c]] | p # ps \<Rightarrow> (c # p) # ps))"

text \<open>\<open>s.charAt(i)\<close>: the unit at \<open>i\<close> as a string, the empty string out of range.\<close>

definition charAt :: "js_string \<Rightarrow> nat \<Rightarrow> js_string" where
  "charAt s i = take 1 (drop i s)"

subsection \<open>Upper-casing\<close>

text \<open>
  \<open>String.prototype.toUpperCase\<close> applies the full Unicode upper-case mapping, which
  is not one-to-one in length: U+00DF maps to ``SS''. The mapping of the code units of
  the Basic Multilingual Plane is tabulated below, as of Unicode 14 (later versions map
  a few more units, each to one unit): \<open>specialUpper\<close> holds the units whose upper case
  is more than one unit, \<open>simpleUpper\<close> the runs \<open>(lo, hi, stride, up)\<close> of units
  \<open>lo, lo + stride, ..., hi\<close> whose upper cases are \<open>up, up + stride, ...\<close>; every other
  unit (surrogates included) is its own upper case.
\<close>

definition simpleUpper :: "(16 word \<times> 16 word \<times> 16 word \<times> 16 word) list" where
  "simpleUpper =
    [(0x0061, 0x007A, 1, 0x0041), (0x00B5, 0x00B5, 1, 0x039C), (0x00E0, 0x00F6, 1, 0x00C0),
     (0x00F8, 0x00FE, 1, 0x00D8), (0x00FF, 0x00FF, 1, 0x0178), (0x0101, 0x012F, 2, 0x0100),
     (0x0131, 0x0131, 1, 0x0049), (0x0133, 0x0137, 2, 0x0132), (0x013A, 0x0148, 2, 0x0139),
     (0x014B, 0x0177, 2, 0x014A), (0x017A, 0x017E, 2, 0x0179), (0x017F, 0x017F, 1, 0x0053),
     (0x0180, 0x0180, 1, 0x0243), (0x0183, 0x0185, 2, 0x0182), (0x0188, 0x0188, 1, 0x0187),
     (0x018C, 0x018C, 1, 0x018B), (0x0192, 0x0192, 1, 0x0191), (0x0195, 0x0195, 1, 0x01F6),
     (0x0199, 0x0199, 1, 0x0198), (0x019A, 0x019A, 1, 0x023D), (0x019E, 0x019E, 1, 0x0220),
     (0x01A1, 0x01A5, 2, 0x01A0), (0x01A8, 0x01A8, 1, 0x01A7), (0x01AD, 0x01AD, 1, 0x01AC),
     (0x01B0, 0x01B0, 1, 0x01AF), (0x01B4, 0x01B6, 2, 0x01B3), (0x01B9, 0x01B9, 1, 0x01B8),
     (0x01BD, 0x01BD, 1, 0x01BC), (0x01BF, 0x01BF, 1, 0x01F7), (0x01C5, 0x01C5, 1, 0x01C4),
     (0x01C6, 0x01C6, 1, 0x01C4), (0x01C8, 0x01C8, 1, 0x01C7), (0x01C9, 0x01C9, 1, 0x01C7),
     (0x01CB, 0x01CB, 1, 0x01CA), (0x01CC, 0x01CC, 1, 0x01CA), (0x01CE, 0x01DC, 2, 0x01CD),
     (0x01DD, 0x01DD, 1, 0x018E), (0x01DF, 0x01EF, 2, 0x01DE), (0x01F2, 0x01F2, 1, 0x01F1),
     (0x01F3, 0x01F3, 1, 0x01F1), (0x01F5, 0x01F5, 1, 0x01F4), (0x01F9, 0x021F, 2, 0x01F8),
     (0x0223, 0x0233, 2, 0x0222), (0x023C, 0x023C, 1, 0x023B), (0x023F, 0x0240, 1, 0x2C7E),
     (0x0242, 0x0242, 1, 0x0241), (0x0247, 0x024F, 2, 0x0246), (0x0250, 0x0250, 1, 0x2C6F),
     (0x0251, 0x0251, 1, 0x2C6D), (0x0252, 0x0252, 1, 0x2C70), (0x0253, 0x0253, 1, 0x0181),
     (0x0254, 0x0254, 1, 0x0186), (0x0256, 0x0257, 1, 0x0189), (0x0259, 0x0259, 1, 0x018F),
     (0x025B, 0x025B, 1, 0x0190), (0x025C, 0x025C, 1, 0xA7AB), (0x0260, 0x0260, 1, 0x0193),
     (0x0261, 0x0261, 1, 0xA7AC), (0x0263, 0x0263, 1, 0x0194), (0x0265, 0x0265, 1, 0xA78D),
     (0x0266, 0x0266, 1, 0xA7AA), (0x0268, 0x0268, 1, 0x0197), (0x0269, 0x0269, 1, 0x0196),
     (0x026A, 0x026A, 1, 0xA7AE), (0x026B, 0x026B, 1, 0x2C62), (0x026C, 0x026C, 1, 0xA7AD),
     (0x026F, 0x026F, 1, 0x019C), (0x0271, 0x0271, 1, 0x2C6E), (0x0272, 0x0272, 1, 0x019D),
     (0x0275, 0x0275, 1, 0x019F), (0x027D, 0x027D, 1, 0x2C64), (0x0280, 0x0280, 1, 0x01A6),
     (0x0282, 0x0282, 1, 0xA7C5), (0x0283, 0x0283, 1, 0x01A9), (0x0287, 0x0287, 1, 0xA7B1),
     (0x0288, 0x0288, 1, 0x01AE), (0x0289, 0x0289, 1, 0x0244), (0x028A, 0x028B, 1, 0x01B1),
     (0x028C, 0x028C, 1, 0x0245), (0x0292, 0x0292, 1, 0x01B7), (0x029D, 0x029D, 1, 0xA7B2),
     (0x029E, 0x029E, 1, 0xA7B0), (0x0345, 0x0345, 1, 0x0399), (0x0371, 0x0373, 2, 0x0370),
     (0x0377, 0x0377, 1, 0x0376), (0x037B, 0x037D, 1, 0x03FD), (0x03AC, 0x03AC, 1, 0x0386),
     (0x03AD, 0x03AF, 1, 0x0388), (0x03B1, 0x03C1, 1, 0x0391), (0x03C2, 0x03C2, 1, 0x03A3),
     (0x03C3, 0x03CB, 1, 0x03A3), (0x03CC, 0x03CC, 1, 0x038C), (0x03CD, 0x03CE, 1, 0x038E),
     (0x03D0, 0x03D0, 1, 0x0392), (0x03D1, 0x03D1, 1, 0x0398), (0x03D5, 0x03D5, 1, 0x03A6),
     (0x03D6, 0x03D6, 1, 0x03A0), (0x03D7, 0x03D7, 1, 0x03CF), (0x03D9, 0x03EF, 2, 0x03D8),
     (0x03F0, 0x03F0, 1, 0x039A), (0x03F1, 0x03F1, 1, 0x03A1), (0x03F2, 0x03F2, 1, 0x03F9),
     (0x03F3, 0x03F3, 1, 0x037F), (0x03F5, 0x03F5, 1, 0x0395), (0x03F8, 0x03F8, 1, 0x03F7),
     (0x03FB, 0x03FB, 1, 0x03FA), (0x0430, 0x044F, 1, 0x0410), (0x0450, 0x045F, 1, 0x0400),
     (0x0461, 0x0481, 2, 0x0460), (0x048B, 0x04BF, 2, 0x048A), (0x04C2, 0x04CE, 2, 0x04C1),
     (0x04CF, 0x04CF, 1, 0x04C0), (0x04D1, 0x052F, 2, 0x04D0), (0x0561, 0x0586, 1, 0x0531),
     (0x10D0, 0x10FA, 1, 0x1C90), (0x10FD, 0x10FF, 1, 0x1CBD), (0x13F8, 0x13FD, 1, 0x13F0),
     (0x1C80, 0x1C80, 1, 0x0412), (0x1C81, 0x1C81, 1, 0x0414), (0x1C82, 0x1C82, 1, 0x041E),
     (0x1C83, 0x1C84, 1, 0x0421), (0x1C85, 0x1C85, 1, 0x0422), (0x1C86, 0x1C86, 1, 0x042A),
     (0x1C87, 0x1C87, 1, 0x0462), (0x1C88, 0x1C88, 1, 0xA64A), (0x1D79, 0x1D79, 1, 0xA77D),
     (0x1D7D, 0x1D7D, 1, 0x2C63), (0x1D8E, 0x1D8E, 1, 0xA7C6), (0x1E01, 0x1E95, 2, 0x1E00),
     (0x1E9B, 0x1E9B, 1, 0x1E60), (0x1EA1, 0x1EFF, 2, 0x1EA0), (0x1F00, 0x1F07, 1, 0x1F08),
     (0x1F10, 0x1F15, 1, 0x1F18), (0x1F20, 0x1F27, 1, 0x1F28), (0x1F30, 0x1F37, 1, 0x1F38),
     (0x1F40, 0x1F45, 1, 0x1F48), (0x1F51, 0x1F57, 2, 0x1F59), (0x1F60, 0x1F67, 1, 0x1F68),
     (0x1F70, 0x1F71, 1, 0x1FBA), (0x1F72, 0x1F75, 1, 0x1FC8), (0x1F76, 0x1F77, 1, 0x1FDA),
     (0x1F78, 0x1F79, 1, 0x1FF8), (0x1F7A, 0x1F7B, 1, 0x1FEA), (0x1F7C, 0x1F7D, 1, 0x1FFA),
     (0x1FB0, 0x1FB1, 1, 0x1FB8), (0x1FBE, 0x1FBE, 1, 0x0399), (0x1FD0, 0x1FD1, 1, 0x1FD8),
     (0x1FE0, 0x1FE1, 1, 0x1FE8), (0x1FE5, 0x1FE5, 1, 0x1FEC), (0x214E, 0x214E, 1, 0x2132),
     (0x2170, 0x217F, 1, 0x2160), (0x2184, 0x2184, 1, 0x2183), (0x24D0, 0x24E9, 1, 0x24B6),
     (0x2C30, 0x2C5F, 1, 0x2C00), (0x2C61, 0x2C61, 1, 0x2C60), (0x2C65, 0x2C65, 1, 0x023A),
     (0x2C66, 0x2C66, 1, 0x023E), (0x2C68, 0x2C6C, 2, 0x2C67), (0x2C73, 0x2C73, 1, 0x2C72),
     (0x2C76, 0x2C76, 1, 0x2C75), (0x2C81, 0x2CE3, 2, 0x2C80), (0x2CEC, 0x2CEE, 2, 0x2CEB),
     (0x2CF3, 0x2CF3, 1, 0x2CF2), (0x2D00, 0x2D25, 1, 0x10A0), (0x2D27, 0x2D27, 1, 0x10C7),
     (0x2D2D, 0x2D2D, 1, 0x10CD), (0xA641, 0xA66D, 2, 0xA640), (0xA681, 0xA69B, 2, 0xA680),
     (0xA723, 0xA72F, 2, 0xA722), (0xA733, 0xA76F, 2, 0xA732), (0xA77A, 0xA77C, 2, 0xA779),
     (0xA77F, 0xA787, 2, 0xA77E), (0xA78C, 0xA78C, 1, 0xA78B), (0xA791, 0xA793, 2, 0xA790),
     (0xA794, 0xA794, 1, 0xA7C4), (0xA797, 0xA7A9, 2, 0xA796), (0xA7B5, 0xA7C3, 2, 0xA7B4),
     (0xA7C8, 0xA7CA, 2, 0xA7C7), (0xA7D1, 0xA7D1, 1, 0xA7D0), (0xA7D7, 0xA7D9, 2, 0xA7D6),
     (0xA7F6, 0xA7F6, 1, 0xA7F5), (0xAB53, 0xAB53, 1, 0xA7B3), (0xAB70, 0xABBF, 1, 0x13A0),
     (0xFF41, 0xFF5A, 1, 0xFF21)]"

definition specialUpper :: "(16 word \<times> js_string) list" where
  "specialUpper =
    [(0x00DF, [0x0053, 0x0053]), (0x0149, [0x02BC, 0x004E]), (0x01F0, [0x004A, 0x030C]),
     (0x0390, [0x0399, 0x0308, 0x0301]), (0x03B0, [0x03A5, 0x0308, 0x0301]),
     (0x0587, [0x0535, 0x0552]), (0x1E96, [0x0048, 0x0331]), (0x1E97, [0x0054, 0x0308]),
     (0x1E98, [0x0057, 0x030A]), (0x1E99, [0x0059, 0x030A]), (0x1E9A, [0x0041, 0x02BE]),
     (0x1F50, [0x03A5, 0x0313]), (0x1F52, [0x03A5, 0x0313, 0x0300]),
     (0x1F54, [0x03A5, 0x0313, 0x0301]), (0x1F56, [0x03A5, 0x0313, 0x0342]),
     (0x1F80, [0x1F08, 0x0399]), (0x1F81, [0x1F09, 0x0399]), (0x1F82, [0x1F0A, 0x0399]),
     (0x1F83, [0x1F0B, 0x0399]), (0x1F84, [0x1F0C, 0x0399]), (0x1F85, [0x1F0D, 0x0399]),
     (0x1F86, [0x1F0E, 0x0399]), (0x1F87, [0x1F0F, 0x0399]), (0x1F88, [0x1F08, 0x0399]),
     (0x1F89, [0x1F09, 0x0399]), (0x1F8A, [0x1F0A, 0x0399]), (0x1F8B, [0x1F0B, 0x0399]),
     (0x1F8C, [0x1F0C, 0x0399]), (0x1F8D, [0x1F0D, 0x0399]), (0x1F8E, [0x1F0E, 0x0399]),
     (0x1F8F, [0x1F0F, 0x0399]), (0x1F90, [0x1F28, 0x0399]), (0x1F91, [0x1F29, 0x0399]),
     (0x1F92, [0x1F2A, 0x0399]), (0x1F93, [0x1F2B, 0x0399]), (0x1F94, [0x1F2C, 0x0399]),
     (0x1F95, [0x1F2D, 0x0399]), (0x1F96, [0x1F2E, 0x0399]), (0x1F97, [0x1F2F, 0x0399]),
     (0x1F98, [0x1F28, 0x0399]), (0x1F99, [0x1F29, 0x0399]), (0x1F9A, [0x1F2A, 0x0399]),
     (0x1F9B, [0x1F2B, 0x0399]), (0x1F9C, [0x1F2C, 0x0399]), (0x1F9D, [0x1F2D, 0x0399]),
     (0x1F9E, [0x1F2E, 0x0399]), (0x1F9F, [0x1F2F, 0x0399]), (0x1FA0, [0x1F68, 0x0399]),
     (0x1FA1, [0x1F69, 0x0399]), (0x1FA2, [0x1F6A, 0x0399]), (0x1FA3, [0x1F6B, 0x0399]),
     (0x1FA4, [0x1F6C, 0x0399]), (0x1FA5, [0x1F6D, 0x0399]), (0x1FA6, [0x1F6E, 0x0399]),
     (0x1FA7, [0x1F6F, 0x0399]), (0x1FA8, [0x1F68, 0x0399]), (0x1FA9, [0x1F69, 0x0399]),
     (0x1FAA, [0x1F6A, 0x0399]), (0x1FAB, [0x1F6B, 0x0399]), (0x1FAC, [0x1F6C, 0x0399]),
     (0x1FAD, [0x1F6D, 0x0399]), (0x1FAE, [0x1F6E, 0x0399]), (0x1FAF, [0x1F6F, 0x0399]),
     (0x1FB2, [0x1FBA, 0x0399]), (0x1FB3, [0x0391, 0x0399]), (0x1FB4, [0x0386, 0x0399]),
     (0x1FB6, [0x0391, 0x0342]), (0x1FB7, [0x0391, 0x0342, 0x0399]), (0x1FBC, [0x0391, 0x0399]),
     (0x1FC2, [0x1FCA, 0x0399]), (0x1FC3, [0x0397, 0x0399]), (0x1FC4, [0x0389, 0x0399]),
     (0x1FC6, [0x0397, 0x0342]), (0x1FC7, [0x0397, 0x0342, 0x0399]), (0x1FCC, [0x0397, 0x0399]),
     (0x1FD2, [0x0399, 0x0308, 0x0300]), (0x1FD3, [0x0399, 0x0308, 0x0301]),
     (0x1FD6, [0x0399, 0x0342]), (0x1FD7, [0x0399, 0x0308, 0x0342]),
     (0x1FE2, [0x03A5, 0x0308, 0x0300]), (0x1FE3, [0x03A5, 0x0308, 0x0301]),
     (0x1FE4, [0x03A1, 0x0313]), (0x1FE6, [0x03A5, 0x0342]), (0x1FE7, [0x03A5, 0x0308, 0x0342]),
     (0x1FF2, [0x1FFA, 0x0399]), (0x1FF3, [0x03A9, 0x0399]), (0x1FF4, [0x038F, 0x0399]),
     (0x1FF6, [0x03A9, 0x0342]), (0x1FF7, [0x03A9, 0x0342, 0x0399]), (0x1FFC, [0x03A9, 0x0399]),
     (0xFB00, [0x0046, 0x0046]), (0xFB01, [0x0046, 0x0049]), (0xFB02, [0x0046, 0x004C]),
     (0xFB03, [0x0046, 0x0046, 0x0049]), (0xFB04, [0x0046, 0x0046, 0x004C]),
     (0xFB05, [0x0053, 0x0054]), (0xFB06, [0x0053, 0x0054]), (0xFB13, [0x0544, 0x0546]),
     (0xFB14, [0x0544, 0x0535]), (0xFB15, [0x0544, 0x053B]), (0xFB16, [0x054E, 0x0546]),
     (0xFB17, [0x0544, 0x053D])]"

definition inRun :: "16 word \<Rightarrow> 16 word \<times> 16 word \<times> 16 word \<times> 16 word \<Rightarrow> bool" where
  "inRun c r = (case r of (lo, hi, stride, up) \<Rightarrow> lo \<le> c \<and> c \<le> hi \<and> (c - lo) mod stride = 0)"

definition toUpperCaseUnit :: "16 word \<Rightarrow> js_string" where
  "toUpperCaseUnit c =
     (case map_of specialUpper c of
        Some us \<Rightarrow> us
      | None \<Rightarrow>
          (case find (inRun c) simpleUpper of
             Some (lo, hi, stride, up) \<Rightarrow> [up + (c - lo)]
           | None \<Rightarrow> [c]))"

text \<open>
  \<open>toUpperCase\<close> on a string without surrogate pairs; the sources apply it to the result
  of \<open>charAt\<close> only, which is at most one unit.
\<close>

definition toUpperCase :: "js_string \<Rightarrow> js_string" where
  "toUpperCase s = concat (map toUpperCaseUnit s)"

section \<open>Values, errors and JSON\<close>

text \<open>
  A JavaScript number is identified by the text that \<open>toString()\<close> and template
  literals produce for it (\<open>Num (lit ''100'')\<close> is the number 100). Distinct numbers have
  distinct texts, except \<open>0\<close> and \<open>-0\<close>, which both print as ``0'' and which the sources
  never tell apart. A number is falsy when it is zero or NaN.
\<close>

datatype js_number = Num js_string

fun numberToString :: "js_number \<Rightarrow> js_string" where
  "numberToString (Num r) = r"

definition truthyNumber :: "js_number \<Rightarrow> bool" where
  "truthyNumber n \<longleftrightarrow> numberToString n \<noteq> lit ''0'' \<and> numberToString n \<noteq> lit ''NaN''"

text \<open>
  The values that \<open>JSON.parse\<close> and \<open>response.json()\<close> produce. An object is the list of
  its own properties; \<open>map_of\<close> reads one. \<open>undefined\<close> is \<open>None\<close> of \<open>json option\<close>.
\<close>

datatype json =
    JNull
  | JBool bool
  | JNumber js_number
  | JString js_string
  | JArray "json list"
  | JObject "(js_string \<times> json) list"

text \<open>
  What the code can throw: \<open>Error\<close> and the module's \<open>ApiError\<close> (message and status),
  and the errors of the platform, whose messages differ between engines.
\<close>

datatype js_error =
    Error js_string
  | ApiError js_string nat
  | TypeError
  | SyntaxError
  | SecurityError
  | QuotaExceededError

fun truthy :: "json \<Rightarrow> bool" where
  "truthy JNull = False"
| "truthy (JBool b) = b"
| "truthy (JNumber n) = truthyNumber n"
| "truthy (JString s) = (s \<noteq> [])"
| "truthy (JArray xs) = True"
| "truthy (JObject kvs) = True"

definition truthy_opt :: "json option \<Rightarrow> bool" where
  "truthy_opt v = (case v of None \<Rightarrow> False | Some x \<Rightarrow> truthy x)"

fun js_typeof :: "json \<Rightarrow> string" where
  "js_typeof JNull = ''object''"
| "js_typeof (JBool b) = ''boolean''"
| "js_typeof (JNumber n) = ''number''"
| "js_typeof (JString s) = ''string''"
| "js_typeof (JArray xs) = ''object''"
| "js_typeof (JObject kvs) = ''object''"

text \<open>
  \<open>v?.k\<close> for the property names the sources read (\<open>success\<close>, \<open>admin\<close>, \<open>username\<close>,
  \<open>message\<close>, \<open>error\<close>, \<open>data\<close>, \<open>pagination\<close>): none of them is a property of a
  built-in prototype, so only an object that has the key yields a value; \<open>null\<close>,
  primitives and arrays yield \<open>undefined\<close>. Plain \<open>v.k\<close> differs on \<open>null\<close> only, where it
  throws; the callers below check for \<open>null\<close> where the sources can reach it.
\<close>

fun get :: "json \<Rightarrow> js_string \<Rightarrow> json option" where
  "get (JObject kvs) k = map_of kvs k"
| "get v k = None"

definition opt_get :: "json option \<Rightarrow> js_string \<Rightarrow> json option" where
  "opt_get v k = (case v of None \<Rightarrow> None | Some x \<Rightarrow> get x k)"

text \<open>\<open>k in v\<close> for a non-null value of type \<open>object\<close> and such a property name.\<close>

fun has_property :: "js_string \<Rightarrow> json \<Rightarrow> bool" where
  "has_property k (JObject kvs) = (map_of kvs k \<noteq> None)"
| "has_property k v = False"

text \<open>
  \<open>String(v)\<close>, also applied by the \<open>Error\<close> constructor to its message. An array joins
  its elements with commas, \<open>null\<close> elements as empty strings. A parsed object prints as
  \<open>[object Object]\<close>, unless it has an own property \<open>toString\<close>: that value cannot be
  called, it shadows the inherited function, and the conversion throws a TypeError.
\<close>

fun ToString :: "json \<Rightarrow> js_error + js_string"
  and ToString_elements :: "json list \<Rightarrow> js_error + js_string list" where
  "ToString JNull = Inr (lit ''null'')"
| "ToString (JBool b) = Inr (if b then lit ''true'' else lit ''false'')"
| "ToString (JNumber n) = Inr (numberToString n)"
| "ToString (JString s) = Inr s"
| "ToString (JArray xs) =
     (case ToString_elements xs of Inl e \<Rightarrow> Inl e | Inr ss \<Rightarrow> Inr (join (lit '','') ss))"
| "ToString (JObject kvs) =
     (if map_of kvs (lit ''toString'') \<noteq> None then Inl TypeError
      else Inr (lit ''[object Object]''))"
| "ToString_elements [] = Inr []"
| "ToString_elements (x # xs) =
     (case (if x = JNull then Inr [] else ToString x) of
        Inl e \<Rightarrow> Inl e
      | Inr s \<Rightarrow> (case ToString_elements xs of Inl e \<Rightarrow> Inl e | Inr ss \<Rightarrow> Inr (s # ss)))"

text \<open>\<open>new ApiError(message, status)\<close>; converting the message can throw instead.\<close>

definition new_ApiError :: "json \<Rightarrow> nat \<Rightarrow> js_error" where
  "new_ApiError message st = (case ToString message of Inl e \<Rightarrow> e | Inr m \<Rightarrow> ApiError m st)"

section \<open>Transport adapter\<close>

text \<open>
  \<open>rawBase\<close>, \<open>normalizedBase\<close> and \<open>API_BASE\<close> are module constants computed once from
  the two environment variables (\<open>None\<close> when a variable is not set). \<open>a || b\<close> on strings
  takes \<open>b\<close> when \<open>a\<close> is unset or empty. \<open>normalizedBase\<close> and \<open>API_BASE\<close> are functions of
  the raw base here.
\<close>

definition or_else :: "js_string option \<Rightarrow> js_string option \<Rightarrow> js_string option" where
  "or_else a b = (case a of None \<Rightarrow> b | Some s \<Rightarrow> if s \<noteq> [] then a else b)"

definition rawBase :: "js_string option \<Rightarrow> js_string option \<Rightarrow> js_string" where
  "rawBase NEXT_PUBLIC_BACKEND_API BACKEND_API =
     trim (case or_else (or_else NEXT_PUBLIC_BACKEND_API BACKEND_API) (Some []) of
             None \<Rightarrow> [] | Some s \<Rightarrow> s)"

text \<open>\<open>rawBase.replace(/\/+$/, "")\<close>: the trailing run of slashes is removed.\<close>

definition normalizedBase :: "js_string \<Rightarrow> js_string" where
  "normalizedBase raw = rev (dropWhile (\<lambda>c. c = 0x002F) (rev raw))"

definition API_BASE :: "js_string \<Rightarrow> js_string" where
  "API_BASE raw =
     (if endsWith (normalizedBase raw) (lit ''/api'') then normalizedBase raw
      else normalizedBase raw @ lit ''/api'')"

definition normalizedPath :: "js_string \<Rightarrow> js_string" where
  "normalizedPath path = (if startsWith path (lit ''/'') then path else lit ''/'' @ path)"

text \<open>\<open>resolveUrl\<close> reads the module constant \<open>API_BASE\<close>, passed here as \<open>base\<close>.\<close>

definition resolveUrl :: "js_string \<Rightarrow> js_string \<Rightarrow> js_error + js_string" where
  "resolveUrl base path =
     (if base = [] then Inl (Error (lit ''Missing BACKEND_API environment variable''))
      else Inr (base @ normalizedPath path))"

text \<open>The number of slashes a string starts with.\<close>

definition leadingSlashes :: "js_string \<Rightarrow> nat" where
  "leadingSlashes s = length (takeWhile (\<lambda>c. c = 0x002F) s)"

text \<open>
  \<open>apiFetch\<close> is private to its module and none of its callers passes \<open>headers\<close>, so the
  \<open>Headers\<close> object starts empty and \<open>headers.has("Content-Type")\<close> is false. The request
  handed to \<open>fetch\<close> is the spread of \<open>init\<close> with the headers and \<open>cache: "no-store"\<close>.
\<close>

record api_init =
  http_method :: "js_string option"
  body :: "js_string option"
  skipContentType :: "bool option"

record request =
  req_method :: "js_string option"
  req_body :: "js_string option"
  req_headers :: "(js_string \<times> js_string) list"
  req_cache :: js_string

text \<open>
  What the code reads of a \<open>Response\<close>: the status and its text, the Content-Type header
  (\<open>None\<close> when absent), and the outcomes of its two body readers: \<open>text()\<close> gives
  \<open>text_body\<close>; \<open>json()\<close> gives \<open>json_body\<close>, or rejects with a SyntaxError when the body
  is not JSON (\<open>None\<close>). \<open>response.ok\<close> is true for the statuses 200 to 299.
\<close>

record response =
  status :: nat
  statusText :: js_string
  contentType :: "js_string option"
  text_body :: js_string
  json_body :: "json option"

definition ok :: "response \<Rightarrow> bool" where
  "ok r \<longleftrightarrow> 200 \<le> status r \<and> status r \<le> 299"

definition buildRequest :: "api_init option \<Rightarrow> request" where
  "buildRequest init =
     (let skip = (case init of None \<Rightarrow> False
                  | Some i \<Rightarrow> (case skipContentType i of None \<Rightarrow> False | Some b \<Rightarrow> b));
          b = (case init of None \<Rightarrow> None | Some i \<Rightarrow> body i);
          hasBody = (case b of None \<Rightarrow> False | Some s \<Rightarrow> s \<noteq> []);
          headers = (if \<not> skip \<and> hasBody
                     then [(lit ''Content-Type'', lit ''application/json'')] else [])
      in \<lparr> req_method = (case init of None \<Rightarrow> None | Some i \<Rightarrow> http_method i),
           req_body = b, req_headers = headers, req_cache = lit ''no-store'' \<rparr>)"

definition isJson :: "response \<Rightarrow> bool" where
  "isJson r = (case contentType r of None \<Rightarrow> False
               | Some ct \<Rightarrow> includes_str ct (lit ''application/json''))"

text \<open>\<open>const payload = isJson ? await response.json() : await response.text()\<close>\<close>

definition readPayload :: "response \<Rightarrow> js_error + json" where
  "readPayload r =
     (if isJson r then (case json_body r of None \<Rightarrow> Inl SyntaxError | Some v \<Rightarrow> Inr v)
      else Inr (JString (text_body r)))"

text \<open>The \<open>message\<close> constant of the failure branch of \<open>apiFetch\<close>.\<close>

definition errorMessage :: "response \<Rightarrow> json \<Rightarrow> js_error + js_string" where
  "errorMessage r payload =
     (case (if isJson r \<and> js_typeof payload = ''object'' \<and> payload \<noteq> JNull
               \<and> has_property (lit ''error'') payload
            then (case get payload (lit ''error'') of
                    None \<Rightarrow> Inr (lit ''undefined'')
                  | Some v \<Rightarrow> ToString v)
            else Inr (statusText r)) of
        Inl e \<Rightarrow> Inl e
      | Inr m \<Rightarrow> Inr (if m \<noteq> [] then m else lit ''Unexpected API error''))"

text \<open>
  \<open>fetch\<close> is the platform's: given the URL and the request it yields a response, or
  rejects (a network failure, a URL it cannot resolve).
\<close>

definition apiFetch ::
  "(js_string \<Rightarrow> request \<Rightarrow> js_error + response) \<Rightarrow> js_string \<Rightarrow> js_string \<Rightarrow>
   api_init option \<Rightarrow> js_error + json" where
  "apiFetch fetch base path init =
     (case resolveUrl base path of
        Inl e \<Rightarrow> Inl e
      | Inr url \<Rightarrow>
          (case fetch url (buildRequest init) of
             Inl e \<Rightarrow> Inl e
           | Inr r \<Rightarrow>
               (case readPayload r of
                  Inl e \<Rightarrow> Inl e
                | Inr payload \<Rightarrow>
                    if \<not> ok r then
                      (case errorMessage r payload of
                         Inl e \<Rightarrow> Inl e
                       | Inr message \<Rightarrow> Inl (ApiError message (status r)))
                    else Inr payload)))"

section \<open>Domain API client\<close>

text \<open>\<open>JSON.stringify\<close> is the platform's and stays a parameter.\<close>

record credentials =
  login_username :: js_string
  login_password :: js_string

definition credentials_json :: "credentials \<Rightarrow> json" where
  "credentials_json c =
     JObject [(lit ''username'', JString (login_username c)),
              (lit ''password'', JString (login_password c))]"

text \<open>\<open>data?.message || "Failed to sign in"\<close>\<close>

definition loginMessage :: "json \<Rightarrow> json" where
  "loginMessage data =
     (case get data (lit ''message'') of
        None \<Rightarrow> JString (lit ''Failed to sign in'')
      | Some m \<Rightarrow> if truthy m then m else JString (lit ''Failed to sign in''))"

text \<open>
  \<open>loginAdmin\<close> returns \<open>data.admin\<close>. The second test of its condition is evaluated only
  when \<open>data.success\<close> is truthy, so \<open>data\<close> is an object there and \<open>data.admin\<close> cannot throw.
\<close>

definition loginAdmin ::
  "(json \<Rightarrow> js_string) \<Rightarrow> (js_string \<Rightarrow> request \<Rightarrow> js_error + response) \<Rightarrow> js_string \<Rightarrow>
   credentials \<Rightarrow> js_error + json option" where
  "loginAdmin JSON_stringify fetch base payload =
     (case apiFetch fetch base (lit ''/auth/admin/login'')
             (Some \<lparr> http_method = Some (lit ''POST''),
                     body = Some (JSON_stringify (credentials_json payload)),
                     skipContentType = None \<rparr>) of
        Inl e \<Rightarrow> Inl e
      | Inr data \<Rightarrow>
          if \<not> truthy_opt (get data (lit ''success''))
             \<or> \<not> truthy_opt (opt_get (get data (lit ''admin'')) (lit ''username''))
          then Inl (new_ApiError (loginMessage data) 400)
          else Inr (get data (lit ''admin'')))"

subsection \<open>Listing jobs\<close>

text \<open>
  \<open>URLSearchParams\<close>: an ordered list of name-value pairs. \<open>set\<close> overwrites the first
  pair of the name and drops the others, or appends. \<open>toString\<close> serialises in the
  \<open>application/x-www-form-urlencoded\<close> format: the UTF-8 bytes of names and values, where
  ASCII letters, digits and \<open>* - . _\<close> stay, a space becomes \<open>+\<close> and every other byte is
  percent-encoded.
\<close>

type_synonym URLSearchParams = "(js_string \<times> js_string) list"

fun usp_set :: "js_string \<Rightarrow> js_string \<Rightarrow> URLSearchParams \<Rightarrow> URLSearchParams" where
  "usp_set n v [] = [(n, v)]"
| "usp_set n v ((k, x) # ps) =
     (if k = n then (n, v) # filter (\<lambda>p. fst p \<noteq> n) ps else (k, x) # usp_set n v ps)"

definition utf8_codepoint :: "nat \<Rightarrow> nat list" where
  "utf8_codepoint cp =
     (if cp < 0x80 then [cp]
      else if cp < 0x800 then [0xC0 + cp div 0x40, 0x80 + cp mod 0x40]
      else if cp < 0x10000 then
        [0xE0 + cp div 0x1000, 0x80 + (cp div 0x40) mod 0x40, 0x80 + cp mod 0x40]
      else [0xF0 + cp div 0x40000, 0x80 + (cp div 0x1000) mod 0x40,
            0x80 + (cp div 0x40) mod 0x40, 0x80 + cp mod 0x40])"

definition isHighSurrogate :: "16 word \<Rightarrow> bool" where
  "isHighSurrogate c \<longleftrightarrow> 0xD800 \<le> c \<and> c \<le> 0xDBFF"

definition isLowSurrogate :: "16 word \<Rightarrow> bool" where
  "isLowSurrogate c \<longleftrightarrow> 0xDC00 \<le> c \<and> c \<le> 0xDFFF"

text \<open>A surrogate pair is one code point; a lone surrogate is replaced by U+FFFD.\<close>

fun utf8_encode :: "js_string \<Rightarrow> nat list" where
  "utf8_encode [] = []"
| "utf8_encode [c] =
     utf8_codepoint (if isHighSurrogate c \<or> isLowSurrogate c then 0xFFFD else unat c)"
| "utf8_encode (c # d # s) =
     (if isHighSurrogate c \<and> isLowSurrogate d
      then utf8_codepoint (0x10000 + (unat c - 0xD800) * 0x400 + (unat d - 0xDC00))
             @ utf8_encode s
      else utf8_codepoint (if isHighSurrogate c \<or> isLowSurrogate c then 0xFFFD else unat c)
             @ utf8_encode (d # s))"

definition hexDigit :: "nat \<Rightarrow> 16 word" where
  "hexDigit d = (if d < 10 then 0x30 + of_nat d else 0x41 + of_nat (d - 10))"

definition urlencoded_byte :: "nat \<Rightarrow> js_string" where
  "urlencoded_byte b =
     (if b = 0x20 then [0x002B]
      else if (0x30 \<le> b \<and> b \<le> 0x39) \<or> (0x41 \<le> b \<and> b \<le> 0x5A) \<or> (0x61 \<le> b \<and> b \<le> 0x7A)
              \<or> b = 0x2A \<or> b = 0x2D \<or> b = 0x2E \<or> b = 0x5F
      then [of_nat b]
      else [0x0025, hexDigit (b div 16), hexDigit (b mod 16)])"

definition urlencoded :: "js_string \<Rightarrow> js_string" where
  "urlencoded s = concat (map urlencoded_byte (utf8_encode s))"

definition usp_toString :: "URLSearchParams \<Rightarrow> js_string" where
  "usp_toString ps = join (lit ''&'') (map (\<lambda>p. urlencoded (fst p) @ lit ''='' @ urlencoded (snd p)) ps)"

record list_params =
  limit :: "js_number option"
  offset :: "js_number option"

text \<open>
  The \<open>searchParams\<close> of \<open>fetchJobs\<close> after its two conditional \<open>set\<close> calls:
  \<open>if (params.limit)\<close> tests truthiness, \<open>typeof params.offset === "number"\<close> presence.
\<close>

definition searchParams :: "list_params \<Rightarrow> URLSearchParams" where
  "searchParams params =
     (let sp1 = (case limit params of
                   None \<Rightarrow> []
                 | Some n \<Rightarrow> if truthyNumber n then usp_set (lit ''limit'') (numberToString n) []
                            else [])
      in case offset params of
           None \<Rightarrow> sp1
         | Some n \<Rightarrow> usp_set (lit ''offset'') (numberToString n) sp1)"

definition jobsEndpoint :: "list_params \<Rightarrow> js_string" where
  "jobsEndpoint params =
     (let query = usp_toString (searchParams params)
      in if query \<noteq> [] then lit ''/jobs?'' @ query else lit ''/jobs'')"

record jobs_result =
  jobs :: "json option"
  pagination :: "json option"

text \<open>Reading \<open>payload.data\<close> of a \<open>null\<close> payload throws a TypeError.\<close>

definition fetchJobs ::
  "(js_string \<Rightarrow> request \<Rightarrow> js_error + response) \<Rightarrow> js_string \<Rightarrow> list_params \<Rightarrow>
   js_error + jobs_result" where
  "fetchJobs fetch base params =
     (case apiFetch fetch base (jobsEndpoint params) None of
        Inl e \<Rightarrow> Inl e
      | Inr payload \<Rightarrow>
          if payload = JNull then Inl TypeError
          else Inr \<lparr> jobs = get payload (lit ''data''),
                     pagination = get payload (lit ''pagination'') \<rparr>)"

subsection \<open>Creating and updating jobs\<close>

record JobFormValues =
  form_title :: js_string
  form_slug :: js_string
  form_company :: js_string
  form_applyUrl :: js_string
  form_salary :: js_string
  form_image :: js_string
  form_tech :: js_string
  form_markdown :: js_string
  form_isActive :: bool

text \<open>
  \<open>JobPayload\<close>: \<open>slug\<close> is \<open>None\<close> for \<open>undefined\<close>, \<open>salary\<close> and \<open>image\<close> are \<open>None\<close> for
  \<open>null\<close>.
\<close>

record JobPayload =
  title :: js_string
  company :: js_string
  applyUrl :: js_string
  markdown :: js_string
  tech :: "js_string list"
  slug :: "js_string option"
  salary :: "js_string option"
  image :: "js_string option"
  isActive :: bool

text \<open>The \<open>techArray\<close> constant of \<open>handleSubmitJob\<close>, as a function of \<open>values.tech\<close>.\<close>

definition techArray :: "js_string \<Rightarrow> js_string list" where
  "techArray t = filter (\<lambda>t. length t > 0) (map (\<lambda>t. trim t) (split_unit 0x002C t))"

definition non_empty :: "js_string \<Rightarrow> js_string option" where
  "non_empty s = (if s \<noteq> [] then Some s else None)"

text \<open>The \<open>payload\<close> constant of \<open>handleSubmitJob\<close>.\<close>

definition jobPayload :: "JobFormValues \<Rightarrow> JobPayload" where
  "jobPayload values =
     \<lparr> title = form_title values,
       company = form_company values,
       applyUrl = form_applyUrl values,
       markdown = form_markdown values,
       tech = techArray (form_tech values),
       slug = non_empty (form_slug values),
       salary = non_empty (form_salary values),
       image = non_empty (form_image values),
       isActive = form_isActive values \<rparr>"

text \<open>
  The value that \<open>JSON.stringify\<close> serialises for a payload: a property that is
  \<open>undefined\<close> is left out, \<open>null\<close> is kept.
\<close>

definition nullable :: "js_string option \<Rightarrow> json" where
  "nullable v = (case v of None \<Rightarrow> JNull | Some s \<Rightarrow> JString s)"

definition payload_json :: "JobPayload \<Rightarrow> json" where
  "payload_json p =
     JObject ([(lit ''title'', JString (title p)),
               (lit ''company'', JString (company p)),
               (lit ''applyUrl'', JString (applyUrl p)),
               (lit ''markdown'', JString (markdown p)),
               (lit ''tech'', JArray (map JString (tech p)))]
              @ (case slug p of None \<Rightarrow> [] | Some s \<Rightarrow> [(lit ''slug'', JString s)])
              @ [(lit ''salary'', nullable (salary p)),
                 (lit ''image'', nullable (image p)),
                 (lit ''isActive'', JBool (isActive p))])"

definition createJob ::
  "(json \<Rightarrow> js_string) \<Rightarrow> (js_string \<Rightarrow> request \<Rightarrow> js_error + response) \<Rightarrow> js_string \<Rightarrow>
   JobPayload \<Rightarrow> js_error + json option" where
  "createJob JSON_stringify fetch base payload =
     (case apiFetch fetch base (lit ''/jobs'')
             (Some \<lparr> http_method = Some (lit ''POST''),
                     body = Some (JSON_stringify (payload_json payload)),
                     skipContentType = None \<rparr>) of
        Inl e \<Rightarrow> Inl e
      | Inr r \<Rightarrow> if r = JNull then Inl TypeError else Inr (get r (lit ''data'')))"

definition updateJob ::
  "(json \<Rightarrow> js_string) \<Rightarrow> (js_string \<Rightarrow> request \<Rightarrow> js_error + response) \<Rightarrow> js_string \<Rightarrow>
   js_number \<Rightarrow> JobPayload \<Rightarrow> js_error + json option" where
  "updateJob JSON_stringify fetch base jobId payload =
     (case apiFetch fetch base (lit ''/jobs/'' @ numberToString jobId)
             (Some \<lparr> http_method = Some (lit ''PATCH''),
                     body = Some (JSON_stringify (payload_json payload)),
                     skipContentType = None \<rparr>) of
        Inl e \<Rightarrow> Inl e
      | Inr r \<Rightarrow> if r = JNull then Inl TypeError else Inr (get r (lit ''data'')))"

text \<open>
  \<open>handleSubmitJob\<close>: \<open>createJob\<close> in create mode, \<open>updateJob\<close> on the selected job
  (given by its id) in edit mode, no call when nothing is selected. The result names the
  update of the displayed list that the handler then requests with the returned job; the
  list itself is outside this model.

  The \<open>catch\<close> block re-throws every error as a plain \<open>Error\<close> with the message of the
  caught one. Everything the modelled operations throw is an instance of \<open>Error\<close>. The
  message of an \<open>Error\<close> or \<open>ApiError\<close> is the one it was built with; the message of an
  error of the platform is the engine's, given by the parameter \<open>engine_message\<close>.
\<close>

datatype modal_mode = Create | Edit

datatype submit_result = Created "json option" | Updated "json option" | NoCall

fun instanceofError :: "js_error \<Rightarrow> bool" where
  "instanceofError e = True"

fun message_of :: "(js_error \<Rightarrow> js_string) \<Rightarrow> js_error \<Rightarrow> js_string" where
  "message_of engine_message (Error m) = m"
| "message_of engine_message (ApiError m st) = m"
| "message_of engine_message e = engine_message e"

definition handleSubmitJob ::
  "(json \<Rightarrow> js_string) \<Rightarrow> (js_error \<Rightarrow> js_string) \<Rightarrow>
   (js_string \<Rightarrow> request \<Rightarrow> js_error + response) \<Rightarrow> js_string \<Rightarrow>
   modal_mode \<Rightarrow> js_number option \<Rightarrow> JobFormValues \<Rightarrow> js_error + submit_result" where
  "handleSubmitJob JSON_stringify engine_message fetch base modalMode selectedJob values =
     (let payload = jobPayload values
      in case (if modalMode = Create then
                 (case createJob JSON_stringify fetch base payload of
                    Inl e \<Rightarrow> Inl e | Inr newJob \<Rightarrow> Inr (Created newJob))
               else
                 (case selectedJob of
                    None \<Rightarrow> Inr NoCall
                  | Some jobId \<Rightarrow>
                      (case updateJob JSON_stringify fetch base jobId payload of
                         Inl e \<Rightarrow> Inl e | Inr updatedJob \<Rightarrow> Inr (Updated updatedJob)))) of
           Inl err \<Rightarrow>
             Inl (Error (if instanceofError err then message_of engine_message err
                         else lit ''Gagal menyimpan lowongan''))
         | Inr outcome \<Rightarrow> Inr outcome)"

section \<open>Session store\<close>

text \<open>
  The environment of the hook: whether \<open>window\<close> is defined (it is not while rendering
  on the server), and the browser's local storage: its items, whether access to it is
  denied (every operation throws a SecurityError) and whether its quota is exhausted
  (\<open>setItem\<close> throws a QuotaExceededError).
\<close>

record session_env =
  has_window :: bool
  storage_denied :: bool
  quota_exceeded :: bool
  items :: "js_string \<rightharpoonup> js_string"

definition getItem :: "session_env \<Rightarrow> js_string \<Rightarrow> js_error + js_string option" where
  "getItem env k = (if storage_denied env then Inl SecurityError else Inr (items env k))"

definition setItem :: "session_env \<Rightarrow> js_string \<Rightarrow> js_string \<Rightarrow> js_error + session_env" where
  "setItem env k v =
     (if storage_denied env then Inl SecurityError
      else if quota_exceeded env then Inl QuotaExceededError
      else Inr (env\<lparr> items := (items env)(k \<mapsto> v) \<rparr>))"

definition removeItem :: "session_env \<Rightarrow> js_string \<Rightarrow> js_error + session_env" where
  "removeItem env k =
     (if storage_denied env then Inl SecurityError
      else Inr (env\<lparr> items := (items env)(k := None) \<rparr>))"

definition STORAGE_KEY :: js_string where
  "STORAGE_KEY = lit ''lintaskode-admin''"

text \<open>
  The two \<open>useState\<close> cells of the hook. \<open>admin\<close> is \<open>None\<close> for \<open>null\<close>; a restored session
  is the parsed value itself.
\<close>

record session_state =
  admin :: "json option"
  hydrated :: bool

definition initial_state :: session_state where
  "initial_state = \<lparr> admin = None, hydrated = False \<rparr>"

definition isAuthenticated :: "session_state \<Rightarrow> bool" where
  "isAuthenticated s \<longleftrightarrow> hydrated s \<and> truthy_opt (admin s)"

text \<open>
  The \<open>try\<close> block of the mount effect: \<open>Inr (Some parsed)\<close> when it calls
  \<open>setAdmin(parsed)\<close>, \<open>Inr None\<close> when it ends without, \<open>Inl\<close> when it throws.
  \<open>JSON.parse\<close> is the platform's (\<open>None\<close>: it throws a SyntaxError).
\<close>

definition restoreSession ::
  "(js_string \<Rightarrow> json option) \<Rightarrow> session_env \<Rightarrow> js_error + json option" where
  "restoreSession JSON_parse env =
     (case (if has_window env then getItem env STORAGE_KEY else Inr None) of
        Inl e \<Rightarrow> Inl e
      | Inr None \<Rightarrow> Inr None
      | Inr (Some stored) \<Rightarrow>
          if stored = [] then Inr None
          else (case JSON_parse stored of
                  None \<Rightarrow> Inl SyntaxError
                | Some parsed \<Rightarrow>
                    if truthy_opt (get parsed (lit ''username'')) then Inr (Some parsed)
                    else Inr None))"

text \<open>
  The whole effect, \<open>catch\<close> and \<open>finally\<close> included: the new state and the warnings
  written to the console (each the message and the caught error).
\<close>

definition hydrate ::
  "(js_string \<Rightarrow> json option) \<Rightarrow> session_env \<Rightarrow> session_state \<Rightarrow>
   session_state \<times> (js_string \<times> js_error) list" where
  "hydrate JSON_parse env s =
     (case restoreSession JSON_parse env of
        Inl error \<Rightarrow>
          (s\<lparr> hydrated := True \<rparr>,
           [(lit ''[useAdminSession] Failed to restore admin session'', error)])
      | Inr None \<Rightarrow> (s\<lparr> hydrated := True \<rparr>, [])
      | Inr (Some parsed) \<Rightarrow> (s\<lparr> admin := Some parsed, hydrated := True \<rparr>, []))"

text \<open>
  \<open>saveSession\<close>, exported as \<open>setSession\<close>: the storage and the state after the call, or
  the error a storage operation throws (then \<open>setAdmin\<close> is not reached).
\<close>

definition saveSession ::
  "(json \<Rightarrow> js_string) \<Rightarrow> session_env \<Rightarrow> json option \<Rightarrow> session_state \<Rightarrow>
   js_error + session_env \<times> session_state" where
  "saveSession JSON_stringify env session s =
     (if \<not> has_window env then Inr (env, s)
      else if truthy_opt session then
        (case setItem env STORAGE_KEY (JSON_stringify (case session of Some v \<Rightarrow> v | None \<Rightarrow> JNull)) of
           Inl e \<Rightarrow> Inl e
         | Inr env' \<Rightarrow> Inr (env', s\<lparr> admin := session \<rparr>))
      else
        (case removeItem env STORAGE_KEY of
           Inl e \<Rightarrow> Inl e
         | Inr env' \<Rightarrow> Inr (env', s\<lparr> admin := None \<rparr>)))"

section \<open>Initials of the signed-in admin\<close>

text \<open>The class \<open>[\s._-]\<close> of the separator expression.\<close>

definition isSeparator :: "16 word \<Rightarrow> bool" where
  "isSeparator c \<longleftrightarrow> isWhiteSpace c \<or> c = 0x002E \<or> c = 0x005F \<or> c = 0x002D"

text \<open>The parts that survive \<open>.split(/[\s._-]+/).filter(Boolean)\<close>.\<close>

definition nameParts :: "js_string \<Rightarrow> js_string list" where
  "nameParts u = filter (\<lambda>part. part \<noteq> []) (split_runs isSeparator u)"

definition getAdminInitials :: "js_string option \<Rightarrow> js_string" where
  "getAdminInitials username =
     (case username of
        None \<Rightarrow> lit ''A''
      | Some u \<Rightarrow>
          if u = [] then lit ''A''
          else (let initials = join [] (map (\<lambda>part. toUpperCase (charAt part 0))
                                          (take 2 (nameParts u)))
                in if initials \<noteq> [] then initials else lit ''A''))"

section \<open>The specification's words, and sample values\<close>

text \<open>
  The error field the specification speaks of: the \<open>error\<close> property of a payload that
  was decoded as JSON and is an object with that key. And its fallback: the generic
  message in place of an empty one.
\<close>

definition spec_errorField :: "response \<Rightarrow> json \<Rightarrow> json option" where
  "spec_errorField r payload =
     (if isJson r then (case payload of JObject kvs \<Rightarrow> map_of kvs (lit ''error'') | _ \<Rightarrow> None)
      else None)"

definition spec_message :: "js_string \<Rightarrow> js_string" where
  "spec_message m = (if m \<noteq> [] then m else lit ''Unexpected API error'')"

text \<open>
  A value is stringifiable, in the specification's word, when \<open>String\<close> converts it: it
  is not an object with an own property \<open>toString\<close>, nor an array that holds a value
  that is not stringifiable.
\<close>

fun spec_stringifiable :: "json \<Rightarrow> bool"
  and spec_stringifiable_all :: "json list \<Rightarrow> bool" where
  "spec_stringifiable (JObject kvs) = (map_of kvs (lit ''toString'') = None)"
| "spec_stringifiable (JArray xs) = spec_stringifiable_all xs"
| "spec_stringifiable JNull = True"
| "spec_stringifiable (JBool b) = True"
| "spec_stringifiable (JNumber n) = True"
| "spec_stringifiable (JString s) = True"
| "spec_stringifiable_all [] = True"
| "spec_stringifiable_all (x # xs) = (spec_stringifiable x \<and> spec_stringifiable_all xs)"

text \<open>
  A login has failed, in the specification's words, when \<open>success\<close> is missing or falsy
  or \<open>admin.username\<close> is missing or falsy. \<open>loginInit\<close> is the request description
  that \<open>loginAdmin\<close> passes to \<open>apiFetch\<close>.
\<close>

definition spec_loginFailed :: "json \<Rightarrow> bool" where
  "spec_loginFailed data \<longleftrightarrow>
     (case get data (lit ''success'') of None \<Rightarrow> True | Some s \<Rightarrow> \<not> truthy s)
     \<or> (case get data (lit ''admin'') of
           None \<Rightarrow> True
         | Some a \<Rightarrow> (case get a (lit ''username'') of None \<Rightarrow> True | Some u \<Rightarrow> \<not> truthy u))"

definition loginInit :: "(json \<Rightarrow> js_string) \<Rightarrow> credentials \<Rightarrow> api_init option" where
  "loginInit JSON_stringify payload =
     Some \<lparr> http_method = Some (lit ''POST''),
            body = Some (JSON_stringify (credentials_json payload)),
            skipContentType = None \<rparr>"

text \<open>
  The pairs of the query string as the specification describes them: \<open>limit\<close> when it is
  set and truthy, \<open>offset\<close> whenever it is a number.
\<close>

definition spec_limitPair :: "list_params \<Rightarrow> js_string list" where
  "spec_limitPair params =
     (case limit params of
        None \<Rightarrow> []
      | Some n \<Rightarrow> if truthyNumber n then [lit ''limit='' @ urlencoded (numberToString n)] else [])"

definition spec_offsetPair :: "list_params \<Rightarrow> js_string list" where
  "spec_offsetPair params =
     (case offset params of
        None \<Rightarrow> []
      | Some n \<Rightarrow> [lit ''offset='' @ urlencoded (numberToString n)])"

text \<open>
  Responses and payloads for the examples of the specification. \<open>stringify_stub\<close> stands
  for \<open>JSON.stringify\<close> where no result depends on the request body.
\<close>

definition jsonResponse :: "nat \<Rightarrow> js_string \<Rightarrow> json \<Rightarrow> response" where
  "jsonResponse st reason v =
     \<lparr> status = st, statusText = reason, contentType = Some (lit ''application/json''),
       text_body = [], json_body = Some v \<rparr>"

definition stringify_stub :: "json \<Rightarrow> js_string" where
  "stringify_stub v = lit ''{}''"

definition someone :: credentials where
  "someone = \<lparr> login_username = lit ''a'', login_password = lit ''secret'' \<rparr>"

definition badCredentials :: json where
  "badCredentials =
     JObject [(lit ''success'', JBool False), (lit ''message'', JString (lit ''bad credentials''))]"

definition goodLogin :: json where
  "goodLogin =
     JObject [(lit ''success'', JBool True),
              (lit ''admin'', JObject [(lit ''username'', JString (lit ''a''))])]"

definition emptyUsername :: json where
  "emptyUsername =
     JObject [(lit ''success'', JBool True), (lit ''admin'', JObject [(lit ''username'', JString [])])]"

definition notFoundJson :: response where
  "notFoundJson =
     \<lparr> status = 404, statusText = lit ''Not Found'',
       contentType = Some (lit ''application/json; charset=utf-8''),
       text_body = [],
       json_body = Some (JObject [(lit ''error'', JString (lit ''Not found''))]) \<rparr>"

definition notFoundText :: response where
  "notFoundText =
     \<lparr> status = 404, statusText = lit ''Not Found'', contentType = Some (lit ''text/plain''),
       text_body = lit ''Internal Server Error'', json_body = None \<rparr>"

definition badGateway :: response where
  "badGateway =
     \<lparr> status = 502, statusText = lit ''Bad Gateway'',
       contentType = Some (lit ''application/json''),
       text_body = lit ''<html>Bad Gateway</html>'', json_body = None \<rparr>"

definition shadowed :: json where
  "shadowed = JObject [(lit ''toString'', JNull)]"

definition shadowedMessage :: json where
  "shadowedMessage = JObject [(lit ''success'', JBool False), (lit ''message'', shadowed)]"

definition shadowedError :: response where
  "shadowedError =
     \<lparr> status = 404, statusText = lit ''Not Found'',
       contentType = Some (lit ''application/json''),
       text_body = [], json_body = Some (JObject [(lit ''error'', shadowed)]) \<rparr>"

definition emptyError :: response where
  "emptyError =
     \<lparr> status = 404, statusText = lit ''Not Found'',
       contentType = Some (lit ''application/json''),
       text_body = [], json_body = Some (JObject [(lit ''error'', JString [])]) \<rparr>"

text \<open>
  A page of jobs, a form, the replies to its submission, and the message that an engine
  gives to the errors of the platform, for the examples.
\<close>

definition jobsPage :: json where
  "jobsPage = JObject [(lit ''data'', JArray [])]"

definition sampleForm :: JobFormValues where
  "sampleForm =
     \<lparr> form_title = lit ''Engineer'', form_slug = [], form_company = lit ''Lintas'',
       form_applyUrl = lit ''https://h/apply'', form_salary = [], form_image = [],
       form_tech = lit '' React, Node.js ,, Go ,'', form_markdown = lit ''text'',
       form_isActive = True \<rparr>"

definition createdReply :: json where
  "createdReply = JObject [(lit ''data'', JObject [(lit ''id'', JNumber (Num (lit ''7'')))])]"

definition boomReply :: json where
  "boomReply = JObject [(lit ''error'', JString (lit ''boom''))]"

definition engine_stub :: "js_error \<Rightarrow> js_string" where
  "engine_stub e = lit ''Failed to fetch''"
text \<open>
  The states of the session store in the specification's words: hydrated with an
  identity, and hydrated without one. The store is unhydrated while \<open>hydrated\<close> is false.
\<close>

definition spec_hydratedAuthenticated :: "session_state \<Rightarrow> bool" where
  "spec_hydratedAuthenticated s \<longleftrightarrow> hydrated s \<and> isAuthenticated s"

definition spec_hydratedUnauthenticated :: "session_state \<Rightarrow> bool" where
  "spec_hydratedUnauthenticated s \<longleftrightarrow> hydrated s \<and> admin s = None"

text \<open>The message of the warning that the mount effect logs.\<close>

definition restoreWarning :: js_string where
  "restoreWarning = lit ''[useAdminSession] Failed to restore admin session''"

text \<open>
  A session, the text that \<open>JSON.stringify\<close> produces for it, and the platform's
  \<open>JSON.parse\<close> and \<open>JSON.stringify\<close> on the texts and values of the examples (the text
  \<open>oops\<close> is not JSON). A browser with the given stored items, and the server, where
  \<open>window\<close> is undefined.
\<close>

definition quoted :: "js_string \<Rightarrow> js_string" where
  "quoted s = [0x0022] @ s @ [0x0022]"

definition sampleSession :: json where
  "sampleSession = JObject [(lit ''username'', JString (lit ''x''))]"

definition sessionText :: js_string where
  "sessionText = lit ''{'' @ quoted (lit ''username'') @ lit '':'' @ quoted (lit ''x'') @ lit ''}''"

definition sampleParse :: "js_string \<Rightarrow> json option" where
  "sampleParse s = (if s = sessionText then Some sampleSession else None)"

definition sampleStringify :: "json \<Rightarrow> js_string" where
  "sampleStringify v = (if v = sampleSession then sessionText else lit ''null'')"

definition browser :: "(js_string \<rightharpoonup> js_string) \<Rightarrow> session_env" where
  "browser m = \<lparr> has_window = True, storage_denied = False, quota_exceeded = False, items = m \<rparr>"

definition server :: session_env where
  "server = \<lparr> has_window = False, storage_denied = False, quota_exceeded = False,
              items = Map.empty \<rparr>"

text \<open>
  The initials in the specification's words: the upper-cased first units of at most the
  first two parts. And a user name whose parts start with U+00DF.
\<close>

definition spec_initials :: "js_string list \<Rightarrow> js_string" where
  "spec_initials parts = concat (map (\<lambda>part. toUpperCaseUnit (hd part)) (take 2 parts))"

definition eszettName :: js_string where
  "eszettName = [0x00DF] @ lit ''eta '' @ [0x00DF] @ lit ''lock''"

section \<open>Facts about strings and the base URL\<close>

lemma lit_slash: "lit ''/'' = [0x002F]"
  by (simp add: lit_def)

lemma lit_api: "lit ''/api'' = [0x002F, 0x0061, 0x0070, 0x0069]"
  by (simp add: lit_def)

lemma endsWith_iff: "endsWith s p \<longleftrightarrow> (\<exists>t. s = t @ p)"
proof
  assume "endsWith s p"
  then have "s = take (length s - length p) s @ p"
    by (metis append_take_drop_id endsWith_def)
  then show "\<exists>t. s = t @ p" ..
next
  assume "\<exists>t. s = t @ p"
  then show "endsWith s p" by (auto simp: endsWith_def)
qed

lemma startsWith_iff: "startsWith s p \<longleftrightarrow> (\<exists>t. s = p @ t)"
proof
  assume "startsWith s p"
  then have "s = p @ drop (length p) s"
    by (metis append_take_drop_id startsWith_def)
  then show "\<exists>t. s = p @ t" ..
next
  assume "\<exists>t. s = p @ t"
  then show "startsWith s p" by (auto simp: startsWith_def)
qed

lemma normalizedBase_fixed:
  "s \<noteq> [] \<Longrightarrow> last s \<noteq> 0x002F \<Longrightarrow> normalizedBase s = s"
  by (cases s rule: rev_cases) (simp_all add: normalizedBase_def)

lemma API_BASE_endsWith: "endsWith (API_BASE raw) (lit ''/api'')"
  by (auto simp: API_BASE_def endsWith_iff)

lemma API_BASE_nonempty: "API_BASE raw \<noteq> []"
  using API_BASE_endsWith[of raw] by (auto simp: endsWith_iff lit_api)

lemma API_BASE_last: "last (API_BASE raw) = 0x0069"
  using API_BASE_endsWith[of raw] by (auto simp: endsWith_iff lit_api)

lemma API_BASE_idem: "API_BASE (API_BASE raw) = API_BASE raw"
proof -
  have "normalizedBase (API_BASE raw) = API_BASE raw"
    by (rule normalizedBase_fixed) (simp_all add: API_BASE_nonempty API_BASE_last)
  then show ?thesis
    using API_BASE_endsWith[of raw] by (simp add: API_BASE_def[of "API_BASE raw"])
qed

lemma API_BASE_double:
  "endsWith (API_BASE raw) (lit ''/api/api'') = endsWith (normalizedBase raw) (lit ''/api/api'')"
proof (cases "endsWith (normalizedBase raw) (lit ''/api'')")
  case True
  then show ?thesis by (simp add: API_BASE_def)
next
  case False
  have l: "lit ''/api/api'' = lit ''/api'' @ lit ''/api''" by (simp add: lit_def)
  have "\<not> endsWith (normalizedBase raw) (lit ''/api/api'')"
    using False unfolding endsWith_iff l by (metis append.assoc)
  moreover have "\<not> endsWith (normalizedBase raw @ lit ''/api'') (lit ''/api/api'')"
    using False unfolding endsWith_iff l by (metis append.assoc append_same_eq)
  ultimately show ?thesis using False by (simp add: API_BASE_def)
qed

lemma resolveUrl_API_BASE:
  "resolveUrl (API_BASE raw) path = Inr (API_BASE raw @ normalizedPath path)"
  by (simp add: resolveUrl_def API_BASE_nonempty)

lemma API_BASE_empty: "API_BASE [] = lit ''/api''"
  by (simp add: API_BASE_def normalizedBase_def endsWith_def lit_def)

lemma leadingSlashes_normalizedPath:
  "leadingSlashes (normalizedPath path) = max 1 (leadingSlashes path)"
  by (cases path) (auto simp: leadingSlashes_def normalizedPath_def startsWith_def lit_slash)

lemma normalizedPath_cases:
  "normalizedPath path = (if leadingSlashes path = 0 then lit ''/'' @ path else path)"
  by (cases path) (auto simp: leadingSlashes_def normalizedPath_def startsWith_def lit_slash)

lemma trim_fixed:
  assumes "s \<noteq> []" "\<not> isWhiteSpace (hd s)" "\<not> isWhiteSpace (last s)"
  shows "trim s = s"
proof -
  from assms have a: "dropWhile isWhiteSpace s = s"
    by (cases s) simp_all
  from assms have "dropWhile isWhiteSpace (rev s) = rev s"
    by (cases s rule: rev_cases) simp_all
  with a show ?thesis by (simp add: trim_def)
qed

lemma trim_ends:
  assumes "trim s \<noteq> []"
  shows "\<not> isWhiteSpace (hd (trim s)) \<and> \<not> isWhiteSpace (last (trim s))"
proof -
  let ?d = "dropWhile isWhiteSpace s"
  let ?e = "dropWhile isWhiteSpace (rev ?d)"
  from assms have e: "?e \<noteq> []" by (simp add: trim_def)
  have d: "?d \<noteq> []"
  proof
    assume a: "?d = []"
    have "?e = []" unfolding a by simp
    with e show False ..
  qed
  from e have "\<not> isWhiteSpace (hd ?e)" by (rule hd_dropWhile)
  then have l: "\<not> isWhiteSpace (last (trim s))"
    using e by (simp add: trim_def last_rev)
  obtain ws where ws: "rev ?d = ws @ ?e"
    by (metis takeWhile_dropWhile_id)
  from e ws have "last ?e = last (rev ?d)" by (metis last_appendR)
  also have "\<dots> = hd ?d" using d by (simp add: last_rev)
  finally have "hd (trim s) = hd ?d" using e by (simp add: trim_def hd_rev)
  moreover from d have "\<not> isWhiteSpace (hd ?d)" by (rule hd_dropWhile)
  ultimately show ?thesis using l by simp
qed

lemma normalizedBase_prefix: "\<exists>t. raw = normalizedBase raw @ t"
proof -
  have "rev raw = takeWhile (\<lambda>c. c = 0x002F) (rev raw) @ dropWhile (\<lambda>c. c = 0x002F) (rev raw)"
    by simp
  then have "raw = rev (dropWhile (\<lambda>c. c = 0x002F) (rev raw)) @ rev (takeWhile (\<lambda>c. c = 0x002F) (rev raw))"
    by (metis rev_append rev_rev_ident)
  then show ?thesis unfolding normalizedBase_def ..
qed

lemma hd_API_BASE:
  assumes "raw = [] \<or> \<not> isWhiteSpace (hd raw)"
  shows "\<not> isWhiteSpace (hd (API_BASE raw))"
proof (cases "normalizedBase raw = []")
  case True
  then show ?thesis
    by (simp add: API_BASE_def endsWith_def lit_def isWhiteSpace_def)
next
  case False
  obtain t where t: "raw = normalizedBase raw @ t"
    using normalizedBase_prefix by blast
  with False have "hd raw = hd (normalizedBase raw)" by (metis hd_append2)
  moreover from False t have "raw \<noteq> []" by auto
  moreover have "hd (API_BASE raw) = hd (normalizedBase raw)"
    using False by (simp add: API_BASE_def)
  ultimately show ?thesis using assms by simp
qed

lemma trim_API_BASE_trim: "trim (API_BASE (trim x)) = API_BASE (trim x)"
proof (rule trim_fixed)
  show "API_BASE (trim x) \<noteq> []" by (rule API_BASE_nonempty)
  show "\<not> isWhiteSpace (hd (API_BASE (trim x)))"
    using trim_ends[of x] by (intro hd_API_BASE) auto
  show "\<not> isWhiteSpace (last (API_BASE (trim x)))"
    by (simp add: API_BASE_last isWhiteSpace_def)
qed

lemma rawBase_API_BASE:
  "rawBase (Some (API_BASE (rawBase e1 e2))) e3 = API_BASE (rawBase e1 e2)"
proof -
  have "rawBase e1 e2 = trim (case or_else (or_else e1 e2) (Some []) of None \<Rightarrow> [] | Some s \<Rightarrow> s)"
    by (simp add: rawBase_def)
  then obtain x where x: "rawBase e1 e2 = trim x" ..
  have "rawBase (Some (API_BASE (trim x))) e3 = trim (API_BASE (trim x))"
    by (simp add: rawBase_def or_else_def API_BASE_nonempty)
  then show ?thesis by (simp add: x trim_API_BASE_trim)
qed

section \<open>Facts about the transport adapter and the API client\<close>

lemma errorMessage_spec:
  "errorMessage r payload =
     (case spec_errorField r payload of
        Some v \<Rightarrow> (case ToString v of Inl e \<Rightarrow> Inl e | Inr m \<Rightarrow> Inr (spec_message m))
      | None \<Rightarrow> Inr (spec_message (statusText r)))"
  by (cases payload)
    (auto simp: errorMessage_def spec_errorField_def spec_message_def split: option.splits sum.splits)

lemma isJson_notFoundJson: "isJson notFoundJson"
  by (simp add: isJson_def notFoundJson_def startsWith_def lit_def)

lemma isJson_notFoundText: "\<not> isJson notFoundText"
  by (simp add: isJson_def notFoundText_def startsWith_def lit_def)

lemma isJson_badGateway: "isJson badGateway"
  by (simp add: isJson_def badGateway_def startsWith_def lit_def)

lemma isJson_emptyError: "isJson emptyError"
  by (simp add: isJson_def emptyError_def startsWith_def lit_def)

lemma apiFetch_ok:
  assumes "fetch (API_BASE raw @ normalizedPath path) (buildRequest init) = Inr r"
    and "ok r" and "readPayload r = Inr data"
  shows "apiFetch fetch (API_BASE raw) path init = Inr data"
  using assms by (simp add: apiFetch_def resolveUrl_API_BASE)

lemma ToString_error:
  "ToString v = Inl e \<Longrightarrow> e = TypeError"
  "ToString_elements vs = Inl e \<Longrightarrow> e = TypeError"
  by (induction v and vs rule: ToString_ToString_elements.induct)
    (auto split: sum.splits if_splits)

lemma readPayload_error: "readPayload r = Inl e \<Longrightarrow> e = SyntaxError"
  by (auto simp: readPayload_def split: if_splits option.splits)

lemma errorMessage_error: "errorMessage r payload = Inl e \<Longrightarrow> e = TypeError"
  by (auto simp: errorMessage_def ToString_error split: if_splits option.splits sum.splits)

lemma apiFetch_not_ok:
  assumes "fetch (API_BASE raw @ normalizedPath path) (buildRequest init) = Inr r"
    and "\<not> ok r"
  shows "\<exists>e. apiFetch fetch (API_BASE raw) path init = Inl e
             \<and> (\<forall>m st. e = ApiError m st \<longrightarrow> st = status r)"
  using assms
  by (auto simp: apiFetch_def resolveUrl_API_BASE split: sum.splits
      dest: readPayload_error errorMessage_error)

lemma isJson_jsonResponse: "isJson (jsonResponse st reason v)"
  by (simp add: isJson_def jsonResponse_def startsWith_def lit_def)

lemma readPayload_jsonResponse: "readPayload (jsonResponse st reason v) = Inr v"
  using isJson_jsonResponse[of st reason v] by (simp add: readPayload_def) (simp add: jsonResponse_def)

lemma keys_distinct:
  "lit ''success'' \<noteq> lit ''message''" "lit ''message'' \<noteq> lit ''success''"
  "lit ''success'' \<noteq> lit ''admin''" "lit ''admin'' \<noteq> lit ''success''"
  "lit ''admin'' \<noteq> lit ''message''" "lit ''message'' \<noteq> lit ''admin''"
  "lit ''username'' \<noteq> lit ''toString''" "lit ''toString'' \<noteq> lit ''username''"
  by (simp_all add: lit_def)

lemma includes_str_append: "includes_str (a @ p @ b) p"
proof (induction a)
  case Nil
  show ?case
  proof (cases "p @ b")
    case Nil
    then show ?thesis by simp
  next
    case (Cons c s)
    have "startsWith (p @ b) p" unfolding startsWith_iff by blast
    with Cons show ?thesis by simp
  qed
next
  case (Cons c a)
  then show ?case by simp
qed

lemma names_distinct: "lit ''limit'' \<noteq> lit ''offset''" "lit ''offset'' \<noteq> lit ''limit''"
  by (simp_all add: lit_def)

lemma searchParams_eq:
  "searchParams params =
     (case limit params of
        None \<Rightarrow> []
      | Some n \<Rightarrow> if truthyNumber n then [(lit ''limit'', numberToString n)] else [])
     @ (case offset params of None \<Rightarrow> [] | Some n \<Rightarrow> [(lit ''offset'', numberToString n)])"
  by (simp add: searchParams_def names_distinct split: option.splits)

lemma join_snoc: "join sep (xs @ [x]) = (if xs = [] then [] else join sep xs @ sep) @ x"
  by (induction sep xs rule: join.induct) simp_all

lemma urlencoded_offset: "urlencoded (lit ''offset'') = lit ''offset''"
  by (simp add: urlencoded_def urlencoded_byte_def utf8_codepoint_def isHighSurrogate_def
      isLowSurrogate_def lit_def)

lemma urlencoded_limit: "urlencoded (lit ''limit'') = lit ''limit''"
  by (simp add: urlencoded_def urlencoded_byte_def utf8_codepoint_def isHighSurrogate_def
      isLowSurrogate_def lit_def)

lemma urlencoded_zero: "urlencoded (lit ''0'') = lit ''0''"
  by (simp add: urlencoded_def urlencoded_byte_def utf8_codepoint_def isHighSurrogate_def
      isLowSurrogate_def lit_def)

lemma usp_toString_pairs:
  "usp_toString (searchParams params) = join (lit ''&'') (spec_limitPair params @ spec_offsetPair params)"
proof -
  have l: "lit ''limit='' = lit ''limit'' @ lit ''=''" and o: "lit ''offset='' = lit ''offset'' @ lit ''=''"
    by (simp_all add: lit_def)
  show ?thesis
    unfolding searchParams_eq spec_limitPair_def spec_offsetPair_def usp_toString_def l o
    by (simp add: urlencoded_limit urlencoded_offset split: option.splits)
qed

lemma join_nonempty: "x \<noteq> [] \<Longrightarrow> join sep (x # xs) \<noteq> []"
  by (cases xs) simp_all

lemma pairs_nonempty:
  "spec_limitPair params @ spec_offsetPair params = [] \<or>
   (\<exists>x xs. spec_limitPair params @ spec_offsetPair params = x # xs \<and> x \<noteq> [])"
proof -
  have ne: "lit ''limit='' \<noteq> []" "lit ''offset='' \<noteq> []"
    by (simp_all add: lit_def)
  show ?thesis
  proof (cases "spec_limitPair params")
    case Nil
    then show ?thesis using ne by (simp add: spec_offsetPair_def split: option.splits)
  next
    case (Cons x xs)
    then have "x \<noteq> []"
      using ne by (auto simp: spec_limitPair_def split: option.splits if_splits)
    with Cons show ?thesis by simp
  qed
qed

lemma jobsEndpoint_pairs:
  "jobsEndpoint params =
     (if spec_limitPair params @ spec_offsetPair params = [] then lit ''/jobs''
      else lit ''/jobs?'' @ join (lit ''&'') (spec_limitPair params @ spec_offsetPair params))"
proof -
  have "join (lit ''&'') (spec_limitPair params @ spec_offsetPair params) = []
        \<longleftrightarrow> spec_limitPair params @ spec_offsetPair params = []"
    using pairs_nonempty[of params] join_nonempty by (metis join.simps(1))
  then show ?thesis
    by (simp add: jobsEndpoint_def usp_toString_pairs)
qed

lemma jobsEndpoint_offset:
  assumes "offset params = Some n"
  shows "includes_str (jobsEndpoint params) (lit ''offset='' @ urlencoded (numberToString n))"
proof -
  let ?off = "lit ''offset='' @ urlencoded (numberToString n)"
  have o: "spec_offsetPair params = [?off]"
    using assms by (simp add: spec_offsetPair_def)
  have "jobsEndpoint params = lit ''/jobs?'' @ join (lit ''&'') (spec_limitPair params @ [?off])"
    by (simp add: jobsEndpoint_pairs o)
  also have "\<dots> = (lit ''/jobs?'' @ (if spec_limitPair params = [] then []
                         else join (lit ''&'') (spec_limitPair params) @ lit ''&'')) @ ?off @ []"
    by (simp add: join_snoc)
  finally show ?thesis
    by (simp only: includes_str_append)
qed

lemma normalizedPath_jobsEndpoint: "normalizedPath (jobsEndpoint params) = jobsEndpoint params"
proof -
  have "startsWith (lit ''/jobs'') (lit ''/'')" "\<And>q. startsWith (lit ''/jobs?'' @ q) (lit ''/'')"
    by (simp_all add: startsWith_def lit_def)
  then have "startsWith (jobsEndpoint params) (lit ''/'')"
    by (simp add: jobsEndpoint_def Let_def)
  then show ?thesis by (simp add: normalizedPath_def)
qed

lemma ToString_stringifiable:
  "spec_stringifiable v \<longleftrightarrow> (\<exists>m. ToString v = Inr m)"
  "spec_stringifiable_all vs \<longleftrightarrow> (\<exists>ms. ToString_elements vs = Inr ms)"
  by (induction v and vs rule: ToString_ToString_elements.induct)
    (auto split: sum.splits)

lemma ToString_not_stringifiable:
  assumes "\<not> spec_stringifiable v"
  shows "ToString v = Inl TypeError"
proof (cases "ToString v")
  case (Inl e)
  then show ?thesis using ToString_error(1)[of v e] by simp
next
  case (Inr m)
  then show ?thesis using assms by (simp add: ToString_stringifiable)
qed

lemma apiFetch_failed:
  assumes "fetch (API_BASE raw @ normalizedPath path) (buildRequest init) = Inr r"
    and "\<not> ok r"
    and "readPayload r = Inr payload"
  shows "apiFetch fetch (API_BASE raw) path init =
     (case spec_errorField r payload of
        None \<Rightarrow> Inl (ApiError (spec_message (statusText r)) (status r))
      | Some v \<Rightarrow>
          (case ToString v of
             Inl e \<Rightarrow> Inl TypeError
           | Inr m \<Rightarrow> Inl (ApiError (spec_message m) (status r))))"
proof -
  have "apiFetch fetch (API_BASE raw) path init =
          (case errorMessage r payload of
             Inl e \<Rightarrow> Inl e
           | Inr message \<Rightarrow> Inl (ApiError message (status r)))"
    using assms by (simp add: apiFetch_def resolveUrl_API_BASE)
  then show ?thesis
    by (auto simp: errorMessage_spec split: option.splits sum.splits dest: ToString_error(1))
qed

lemma apiFetch_unread:
  assumes "fetch (API_BASE raw @ normalizedPath path) (buildRequest init) = Inr r"
    and "readPayload r = Inl e"
  shows "apiFetch fetch (API_BASE raw) path init = Inl SyntaxError"
  using assms readPayload_error[of r e]
  by (simp add: apiFetch_def resolveUrl_API_BASE)

lemma normalizedPath_login:
  "normalizedPath (lit ''/auth/admin/login'') = lit ''/auth/admin/login''"
  by (simp add: normalizedPath_def startsWith_def lit_def)

lemma loginAdmin_error:
  assumes "apiFetch fetch base (lit ''/auth/admin/login'') (loginInit JSON_stringify payload) = Inl e"
  shows "loginAdmin JSON_stringify fetch base payload = Inl e"
  using assms by (simp add: loginAdmin_def loginInit_def)

lemma loginAdmin_body:
  assumes "apiFetch fetch base (lit ''/auth/admin/login'') (loginInit JSON_stringify payload) = Inr data"
  shows "loginAdmin JSON_stringify fetch base payload =
           (if spec_loginFailed data then Inl (new_ApiError (loginMessage data) 400)
            else Inr (get data (lit ''admin'')))"
proof -
  have cond: "spec_loginFailed data \<longleftrightarrow>
                \<not> truthy_opt (get data (lit ''success''))
                \<or> \<not> truthy_opt (opt_get (get data (lit ''admin'')) (lit ''username''))"
    by (simp add: spec_loginFailed_def truthy_opt_def opt_get_def split: option.splits)
  show ?thesis
    using assms unfolding cond by (simp add: loginAdmin_def loginInit_def)
qed

lemma join_cons: "join sep (x # ys) = x @ (if ys = [] then [] else sep @ join sep ys)"
  by (cases ys) simp_all

lemma jobsEndpoint_limit:
  assumes "limit params = Some n" and "truthyNumber n"
  shows "includes_str (jobsEndpoint params) (lit ''limit='' @ urlencoded (numberToString n))"
proof -
  let ?lim = "lit ''limit='' @ urlencoded (numberToString n)"
  have l: "spec_limitPair params = [?lim]"
    using assms by (simp add: spec_limitPair_def)
  have "jobsEndpoint params = lit ''/jobs?'' @ join (lit ''&'') (?lim # spec_offsetPair params)"
    by (simp add: jobsEndpoint_pairs l)
  also have "\<dots> = lit ''/jobs?'' @ ?lim @ (if spec_offsetPair params = [] then []
                         else lit ''&'' @ join (lit ''&'') (spec_offsetPair params))"
    by (simp only: join_cons)
  finally show ?thesis
    by (simp only: includes_str_append)
qed

lemma urlencoded_hundred: "urlencoded (lit ''100'') = lit ''100''"
  by (simp add: urlencoded_def urlencoded_byte_def utf8_codepoint_def isHighSurrogate_def
      isLowSurrogate_def lit_def)

lemma fetchJobs_fetched:
  assumes "fetch (API_BASE raw @ jobsEndpoint params) (buildRequest None) = Inr r"
    and "ok r" and "readPayload r = Inr payload"
  shows "apiFetch fetch (API_BASE raw) (jobsEndpoint params) None = Inr payload"
  using assms apiFetch_ok[of fetch raw "jobsEndpoint params" None r payload]
  by (simp add: normalizedPath_jobsEndpoint)

lemma fetchJobs_refused:
  assumes "fetch (API_BASE raw @ jobsEndpoint params) (buildRequest None) = Inl e"
  shows "apiFetch fetch (API_BASE raw) (jobsEndpoint params) None = Inl e"
  using assms by (simp add: apiFetch_def resolveUrl_API_BASE normalizedPath_jobsEndpoint)

lemma isJson_shadowedError: "isJson shadowedError"
  by (simp add: isJson_def shadowedError_def startsWith_def lit_def)

section \<open>Facts about the session store\<close>

lemma truthy_of_property: "truthy_opt (get v k) \<Longrightarrow> truthy v"
  by (cases v) (simp_all add: truthy_opt_def)

lemma restoreSession_Some:
  "restoreSession JSON_parse env = Inr (Some parsed) \<Longrightarrow> truthy parsed"
  by (auto simp: restoreSession_def getItem_def truthy_of_property
      split: if_splits sum.splits option.splits)

lemma hydrate_initial:
  "hydrate JSON_parse env initial_state =
     (case restoreSession JSON_parse env of
        Inl e \<Rightarrow> (\<lparr> admin = None, hydrated = True \<rparr>, [(restoreWarning, e)])
      | Inr None \<Rightarrow> (\<lparr> admin = None, hydrated = True \<rparr>, [])
      | Inr (Some parsed) \<Rightarrow> (\<lparr> admin = Some parsed, hydrated = True \<rparr>, []))"
  by (simp add: hydrate_def initial_state_def restoreWarning_def split: sum.splits option.splits)

lemma sessionText_nonempty: "sessionText \<noteq> []" "lit ''oops'' \<noteq> []"
  by (simp_all add: sessionText_def lit_def)

lemma oops_not_session: "lit ''oops'' \<noteq> sessionText"
  by (simp add: sessionText_def quoted_def lit_def)

lemma restoreSession_removed:
  assumes "has_window env \<longrightarrow> \<not> storage_denied env \<and> items env STORAGE_KEY = None"
  shows "restoreSession JSON_parse env = Inr None"
  using assms by (simp add: restoreSession_def getItem_def)

lemma saveSession_server: "\<not> has_window env \<Longrightarrow> saveSession JSON_stringify env session s = Inr (env, s)"
  by (simp add: saveSession_def)

lemma saveSession_null:
  assumes "saveSession JSON_stringify env None s = Inr (env', s')"
  shows "has_window env' \<longrightarrow> \<not> storage_denied env' \<and> items env' STORAGE_KEY = None"
  using assms
  by (auto simp: saveSession_def removeItem_def truthy_opt_def split: if_splits)

lemma truthy_sampleSession: "truthy sampleSession"
  by (simp add: sampleSession_def)

section \<open>Facts about splitting, trimming and the job payload\<close>

lemma split_unit_nonempty: "split_unit sep s \<noteq> []"
  by (induction s) (auto split: list.splits)

lemma join_Cons: "ps \<noteq> [] \<Longrightarrow> join sep (p # ps) = p @ sep @ join sep ps"
  by (cases ps) simp_all

lemma join_split_unit: "join [sep] (split_unit sep s) = s"
proof (induction s)
  case Nil
  show ?case by simp
next
  case (Cons c s)
  show ?case
  proof (cases "c = sep")
    case True
    with Cons show ?thesis by (simp add: join_Cons split_unit_nonempty)
  next
    case False
    obtain p ps where ps: "split_unit sep s = p # ps"
      using split_unit_nonempty[of sep s] by (cases "split_unit sep s") auto
    with Cons have "join [sep] (p # ps) = s" by simp
    then have "join [sep] ((c # p) # ps) = c # s" by (cases ps) auto
    with False ps show ?thesis by simp
  qed
qed

lemma split_unit_pieces: "p \<in> set (split_unit sep s) \<Longrightarrow> sep \<notin> set p"
proof (induction s arbitrary: p)
  case Nil
  then show ?case by simp
next
  case (Cons c s)
  then show ?case
    by (cases "split_unit sep s") (auto split: if_splits)
qed

lemma set_trim: "set (trim s) \<subseteq> set s"
proof -
  have "set (trim s) \<subseteq> set (dropWhile isWhiteSpace s)"
    unfolding trim_def using set_dropWhileD by fastforce
  also have "\<dots> \<subseteq> set s" using set_dropWhileD by fastforce
  finally show ?thesis .
qed

lemma trim_trim: "trim (trim s) = trim s"
proof (cases "trim s = []")
  case True
  have "trim [] = []" by (simp add: trim_def)
  with True show ?thesis by simp
next
  case False
  then show ?thesis using trim_ends[of s] by (intro trim_fixed) auto
qed

lemma lit_comma: "lit '','' = [0x002C]"
  by (simp add: lit_def)

lemma techArray_member:
  "e \<in> set (techArray t) \<longleftrightarrow> e \<noteq> [] \<and> (\<exists>p \<in> set (split_unit 0x002C t). e = trim p)"
  by (auto simp: techArray_def)

lemma payload_tech:
  "get (payload_json p) (lit ''tech'') = Some (JArray (map JString (tech p)))"
proof -
  have "lit ''tech'' \<noteq> lit ''title''" "lit ''tech'' \<noteq> lit ''company''"
    "lit ''tech'' \<noteq> lit ''applyUrl''" "lit ''tech'' \<noteq> lit ''markdown''"
    by (simp_all add: lit_def)
  then show ?thesis by (simp add: payload_json_def)
qed

section \<open>Facts about the initials\<close>

lemma split_runs_step:
  "split_runs sep (c # s) =
     (if sep c then (if s = [] then [[], []]
                     else if sep (hd s) then split_runs sep s else [] # split_runs sep s)
      else (case split_runs sep s of [] \<Rightarrow> [[c]] | p # ps \<Rightarrow> (c # p) # ps))"
  by (cases s) simp_all

lemma split_runs_nonempty: "split_runs sep s \<noteq> []"
proof (induction s)
  case Nil
  show ?case by simp
next
  case (Cons c s)
  then show ?case
    unfolding split_runs_step[of sep c s] by (simp split: list.splits)
qed

lemma concat_split_runs: "concat (split_runs sep s) = filter (\<lambda>c. \<not> sep c) s"
proof (induction s)
  case Nil
  show ?case by simp
next
  case (Cons c s)
  show ?case
  proof (cases "sep c")
    case True
    with Cons show ?thesis
      unfolding split_runs_step[of sep c s] by simp
  next
    case False
    obtain p ps where "split_runs sep s = p # ps"
      using split_runs_nonempty[of sep s] by (cases "split_runs sep s") auto
    with False Cons show ?thesis
      unfolding split_runs_step[of sep c s] by simp
  qed
qed

lemma split_runs_pieces: "p \<in> set (split_runs sep s) \<Longrightarrow> c \<in> set p \<Longrightarrow> \<not> sep c"
proof -
  assume "p \<in> set (split_runs sep s)" "c \<in> set p"
  then have "c \<in> set (concat (split_runs sep s))" by auto
  then show "\<not> sep c" by (simp add: concat_split_runs)
qed

lemma concat_nameParts: "concat (nameParts u) = filter (\<lambda>c. \<not> isSeparator c) u"
proof -
  have "concat (filter (\<lambda>p. p \<noteq> []) xs) = concat xs" for xs :: "js_string list"
    by (induction xs) auto
  then show ?thesis by (simp add: nameParts_def concat_split_runs)
qed

lemma nameParts_member:
  "part \<in> set (nameParts u) \<Longrightarrow> part \<noteq> [] \<and> (\<forall>c \<in> set part. \<not> isSeparator c)"
  using split_runs_pieces by (auto simp: nameParts_def)

lemma join_empty: "join [] xs = concat xs"
  by (induction "[] :: js_string" xs rule: join.induct) simp_all

lemma specialUpper_entries: "list_all (\<lambda>(c, us). c \<ge> 0x0080 \<and> us \<noteq> [] \<and> length us \<le> 3) specialUpper"
  unfolding specialUpper_def by simp

lemma toUpperCaseUnit_bounds: "toUpperCaseUnit c \<noteq> [] \<and> length (toUpperCaseUnit c) \<le> 3"
proof (cases "map_of specialUpper c")
  case None
  then show ?thesis by (simp add: toUpperCaseUnit_def split: option.splits)
next
  case (Some us)
  then have "(c, us) \<in> set specialUpper" by (rule map_of_SomeD)
  with specialUpper_entries have "us \<noteq> [] \<and> length us \<le> 3"
    by (auto simp: list_all_iff)
  with Some show ?thesis by (simp add: toUpperCaseUnit_def)
qed

lemma toUpperCaseUnit_ascii: "c < 0x0080 \<Longrightarrow> length (toUpperCaseUnit c) = 1"
proof -
  assume c: "c < 0x0080"
  have "map_of specialUpper c = None"
  proof (cases "map_of specialUpper c")
    case None
    then show ?thesis .
  next
    case (Some us)
    then have "(c, us) \<in> set specialUpper" by (rule map_of_SomeD)
    with specialUpper_entries have "c \<ge> 0x0080" by (auto simp: list_all_iff)
    with c show ?thesis by simp
  qed
  then show ?thesis by (simp add: toUpperCaseUnit_def split: option.splits)
qed

lemma initial_of_part: "part \<noteq> [] \<Longrightarrow> toUpperCase (charAt part 0) = toUpperCaseUnit (hd part)"
  by (cases part) (simp_all add: toUpperCase_def charAt_def)

lemma initials_eq:
  "join [] (map (\<lambda>part. toUpperCase (charAt part 0)) (take 2 (nameParts u)))
     = spec_initials (nameParts u)"
proof -
  have h: "map (\<lambda>part. toUpperCase (charAt part 0)) (take 2 (nameParts u))
        = map (\<lambda>part. toUpperCaseUnit (hd part)) (take 2 (nameParts u))"
  proof (rule map_cong[OF refl])
    fix part assume "part \<in> set (take 2 (nameParts u))"
    then have "part \<in> set (nameParts u)" by (rule in_set_takeD)
    then have "part \<noteq> []" using nameParts_member by blast
    then show "toUpperCase (charAt part 0) = toUpperCaseUnit (hd part)" by (rule initial_of_part)
  qed
  show ?thesis unfolding join_empty spec_initials_def h ..
qed

lemma spec_initials_empty: "spec_initials parts = [] \<longleftrightarrow> parts = []"
proof (cases parts)
  case Nil
  then show ?thesis by (simp add: spec_initials_def)
next
  case (Cons p ps)
  then show ?thesis using toUpperCaseUnit_bounds[of "hd p"] by (simp add: spec_initials_def)
qed

lemma length_concat_le:
  "(\<And>x. x \<in> set xs \<Longrightarrow> length x \<le> k) \<Longrightarrow> length (concat xs) \<le> k * length xs"
  by (induction xs) (auto simp: add_mono)

lemma spec_initials_length: "length (spec_initials parts) \<le> 6"
proof -
  have "length (spec_initials parts) \<le> 3 * length (map (\<lambda>part. toUpperCaseUnit (hd part)) (take 2 parts))"
    unfolding spec_initials_def
    by (rule length_concat_le) (use toUpperCaseUnit_bounds in auto)
  then show ?thesis by simp
qed

lemma spec_initials_short:
  assumes "\<And>part. part \<in> set (take 2 parts) \<Longrightarrow> length (toUpperCaseUnit (hd part)) = 1"
  shows "length (spec_initials parts) \<le> 2"
proof -
  have "length (spec_initials parts) \<le> 1 * length (map (\<lambda>part. toUpperCaseUnit (hd part)) (take 2 parts))"
    unfolding spec_initials_def
    by (rule length_concat_le) (use assms in auto)
  then show ?thesis by simp
qed

lemma getAdminInitials_eq:
  "getAdminInitials username =
     (case username of
        None \<Rightarrow> lit ''A''
      | Some u \<Rightarrow> if nameParts u = [] then lit ''A'' else spec_initials (nameParts u))"
proof (cases username)
  case None
  then show ?thesis by (simp add: getAdminInitials_def)
next
  case (Some u)
  have "nameParts [] = []" by (simp add: nameParts_def)
  with Some show ?thesis
    by (auto simp: getAdminInitials_def initials_eq spec_initials_empty Let_def)
qed

lemma split_runs_word:
  "w \<noteq> [] \<Longrightarrow> \<forall>c \<in> set w. \<not> sep c \<Longrightarrow> split_runs sep w = [w]"
proof (induction w)
  case Nil
  then show ?case by simp
next
  case (Cons c w)
  show ?case
  proof (cases w)
    case Nil
    with Cons.prems show ?thesis by simp
  next
    case (Cons d v)
    with Cons.IH Cons.prems have "split_runs sep w = [w]" by simp
    with Cons.prems show ?thesis unfolding split_runs_step[of sep c w] by simp
  qed
qed

lemma split_runs_separator_first:
  "sep c \<Longrightarrow> hd (split_runs sep (c # s)) = []
     \<and> filter (\<lambda>p. p \<noteq> []) (tl (split_runs sep (c # s))) = filter (\<lambda>p. p \<noteq> []) (split_runs sep s)"
proof (induction s arbitrary: c)
  case Nil
  then show ?case by simp
next
  case (Cons d s)
  show ?case
  proof (cases "sep d")
    case True
    with Cons.IH[of d] have ih: "hd (split_runs sep (d # s)) = []"
      "filter (\<lambda>p. p \<noteq> []) (tl (split_runs sep (d # s))) = filter (\<lambda>p. p \<noteq> []) (split_runs sep s)"
      by simp_all
    obtain p ps where pp: "split_runs sep (d # s) = p # ps"
      using split_runs_nonempty[of sep "d # s"] by (cases "split_runs sep (d # s)") auto
    with ih have "p = []" by simp
    with pp have "filter (\<lambda>p. p \<noteq> []) (tl (split_runs sep (d # s)))
                    = filter (\<lambda>p. p \<noteq> []) (split_runs sep (d # s))" by simp
    with True Cons.prems ih show ?thesis
      unfolding split_runs_step[of sep c "d # s"] by simp
  next
    case False
    with Cons.prems show ?thesis
      unfolding split_runs_step[of sep c "d # s"] by simp
  qed
qed

lemma nameParts_separator: "isSeparator c \<Longrightarrow> nameParts (c # s) = nameParts s"
proof -
  assume c: "isSeparator c"
  obtain p ps where pp: "split_runs isSeparator (c # s) = p # ps"
    using split_runs_nonempty[of isSeparator "c # s"]
    by (cases "split_runs isSeparator (c # s)") auto
  with split_runs_separator_first[where sep = isSeparator and c = c and s = s, OF c] have "p = []"
    "filter (\<lambda>p. p \<noteq> []) ps = filter (\<lambda>p. p \<noteq> []) (split_runs isSeparator s)"
    by simp_all
  with pp show ?thesis by (simp add: nameParts_def)
qed

lemma split_runs_append:
  assumes c: "sep c"
  shows "hd (split_runs sep (a @ c # b)) = hd (split_runs sep a)
       \<and> filter (\<lambda>p. p \<noteq> []) (tl (split_runs sep (a @ c # b)))
           = filter (\<lambda>p. p \<noteq> []) (tl (split_runs sep a)) @ filter (\<lambda>p. p \<noteq> []) (split_runs sep b)"
proof (induction a)
  case Nil
  show ?case using split_runs_separator_first[where sep = sep and c = c and s = b, OF c] by simp
next
  case (Cons x a)
  obtain p ps where pp: "split_runs sep (a @ c # b) = p # ps"
    using split_runs_nonempty[of sep "a @ c # b"] by (cases "split_runs sep (a @ c # b)") auto
  obtain q qs where qq: "split_runs sep a = q # qs"
    using split_runs_nonempty[of sep a] by (cases "split_runs sep a") auto
  from Cons pp qq have ih: "p = q"
    "filter (\<lambda>p. p \<noteq> []) ps = filter (\<lambda>p. p \<noteq> []) qs @ filter (\<lambda>p. p \<noteq> []) (split_runs sep b)"
    by simp_all
  show ?case
  proof (cases "sep x")
    case False
    with pp qq ih show ?thesis
      unfolding append_Cons split_runs_step[of sep x "a @ c # b"] split_runs_step[of sep x a]
      by simp
  next
    case True
    have l: "hd (split_runs sep (x # a @ c # b)) = []"
      "filter (\<lambda>p. p \<noteq> []) (tl (split_runs sep (x # a @ c # b)))
         = filter (\<lambda>p. p \<noteq> []) (split_runs sep (a @ c # b))"
      using split_runs_separator_first[where sep = sep and c = x and s = "a @ c # b", OF True] by simp_all
    have r: "hd (split_runs sep (x # a)) = []"
      "filter (\<lambda>p. p \<noteq> []) (tl (split_runs sep (x # a)))
         = filter (\<lambda>p. p \<noteq> []) (split_runs sep a)"
      using split_runs_separator_first[where sep = sep and c = x and s = a, OF True] by simp_all
    from l r pp qq ih show ?thesis by simp
  qed
qed

lemma nameParts_append:
  assumes "isSeparator c"
  shows "nameParts (a @ c # b) = nameParts a @ nameParts b"
proof -
  obtain p ps where pp: "split_runs isSeparator (a @ c # b) = p # ps"
    using split_runs_nonempty[of isSeparator "a @ c # b"]
    by (cases "split_runs isSeparator (a @ c # b)") auto
  obtain q qs where qq: "split_runs isSeparator a = q # qs"
    using split_runs_nonempty[of isSeparator a] by (cases "split_runs isSeparator a") auto
  from split_runs_append[where sep = isSeparator and c = c and a = a and b = b, OF assms] pp qq have "p = q"
    "filter (\<lambda>p. p \<noteq> []) ps
       = filter (\<lambda>p. p \<noteq> []) qs @ filter (\<lambda>p. p \<noteq> []) (split_runs isSeparator b)"
    by simp_all
  with pp qq show ?thesis by (simp add: nameParts_def)
qed

lemma nameParts_word:
  "w \<noteq> [] \<Longrightarrow> \<forall>c \<in> set w. \<not> isSeparator c \<Longrightarrow> nameParts w = [w]"
  by (simp add: nameParts_def split_runs_word)

lemma nameParts_john:
  "nameParts (lit ''john.doe smith'') = [lit ''john'', lit ''doe'', lit ''smith'']"
  by (simp add: nameParts_def isSeparator_def isWhiteSpace_def lit_def)

lemma upper_j_d: "toUpperCaseUnit 0x006A = [0x004A]" "toUpperCaseUnit 0x0064 = [0x0044]"
  by (simp_all add: toUpperCaseUnit_def specialUpper_def simpleUpper_def inRun_def)

lemma normalizedPath_jobs: "normalizedPath (lit ''/jobs'') = lit ''/jobs''"
  by (simp add: normalizedPath_def startsWith_def lit_def)

lemma createJob_refused:
  assumes "fetch (API_BASE raw @ lit ''/jobs'')
             (buildRequest
               (Some \<lparr> http_method = Some (lit ''POST''),
                       body = Some (JSON_stringify (payload_json payload)),
                       skipContentType = None \<rparr>)) = Inl e"
  shows "createJob JSON_stringify fetch (API_BASE raw) payload = Inl e"
  using assms
  by (simp add: createJob_def apiFetch_def resolveUrl_API_BASE normalizedPath_jobs)

lemma createJob_created:
  assumes "fetch (API_BASE raw @ lit ''/jobs'')
             (buildRequest
               (Some \<lparr> http_method = Some (lit ''POST''),
                       body = Some (JSON_stringify (payload_json payload)),
                       skipContentType = None \<rparr>)) = Inr r"
    and "ok r" and "readPayload r = Inr reply" and "reply \<noteq> JNull"
  shows "createJob JSON_stringify fetch (API_BASE raw) payload = Inr (get reply (lit ''data''))"
  using assms
  by (simp add: createJob_def apiFetch_def resolveUrl_API_BASE normalizedPath_jobs)

lemma createJob_failed:
  assumes "fetch (API_BASE raw @ lit ''/jobs'')
             (buildRequest
               (Some \<lparr> http_method = Some (lit ''POST''),
                       body = Some (JSON_stringify (payload_json payload)),
                       skipContentType = None \<rparr>)) = Inr r"
    and "\<not> ok r" and "readPayload r = Inr reply"
    and "spec_errorField r reply = Some (JString s)"
  shows "createJob JSON_stringify fetch (API_BASE raw) payload
           = Inl (ApiError (spec_message s) (status r))"
proof -
  from assms(1) have "fetch (API_BASE raw @ normalizedPath (lit ''/jobs''))
             (buildRequest
               (Some \<lparr> http_method = Some (lit ''POST''),
                       body = Some (JSON_stringify (payload_json payload)),
                       skipContentType = None \<rparr>)) = Inr r"
    by (simp add: normalizedPath_jobs)
  from apiFetch_failed [where fetch = fetch, OF this assms(2) assms(3)] assms(4)
  show ?thesis by (simp add: createJob_def)
qed

section \<open>The claims\<close>

subsection \<open>C1: a missing base URL\<close>

text \<open>
  C1 says that with no base URL configured (both environment variables empty or absent)
  every call of \<open>apiFetch\<close> fails with the configuration error, before any network I/O.
  The code does not: the guard of \<open>resolveUrl\<close> tests \<open>API_BASE\<close>, which already carries
  the appended \<open>/api\<close> and is never empty, so \<open>resolveUrl\<close> returns a URL for every
  configuration and every path. With nothing configured the raw base is empty,
  \<open>resolveUrl\<close> returns \<open>/api/jobs\<close> for the path \<open>/jobs\<close>, and \<open>apiFetch\<close> hands that URL
  to \<open>fetch\<close> and returns what the response holds.
\<close>

theorem C1_missing_base_url_reaches_fetch:
  "resolveUrl (API_BASE (rawBase e1 e2)) path = Inr (API_BASE (rawBase e1 e2) @ normalizedPath path)
   \<and> rawBase None None = [] \<and> rawBase (Some []) (Some []) = []
   \<and> resolveUrl (API_BASE []) (lit ''/jobs'') = Inr (lit ''/api/jobs'')
   \<and> apiFetch
         (\<lambda>url request.
            if url = lit ''/api/jobs''
            then Inr \<lparr> status = 200, statusText = lit ''OK'', contentType = None,
                       text_body = lit ''jobs'', json_body = None \<rparr>
            else Inl TypeError)
         (API_BASE []) (lit ''/jobs'') None
       = Inr (JString (lit ''jobs''))"
proof -
  have never: "resolveUrl (API_BASE (rawBase e1 e2)) path
                 = Inr (API_BASE (rawBase e1 e2) @ normalizedPath path)"
    by (rule resolveUrl_API_BASE)
  have unset: "rawBase None None = []" "rawBase (Some []) (Some []) = []"
    by (simp_all add: rawBase_def or_else_def trim_def)
  have url: "resolveUrl (API_BASE []) (lit ''/jobs'') = Inr (lit ''/api/jobs'')"
    by (simp add: API_BASE_empty resolveUrl_def normalizedPath_def startsWith_def lit_def)
  have fetched: "apiFetch
         (\<lambda>url request.
            if url = lit ''/api/jobs''
            then Inr \<lparr> status = 200, statusText = lit ''OK'', contentType = None,
                       text_body = lit ''jobs'', json_body = None \<rparr>
            else Inl TypeError)
         (API_BASE []) (lit ''/jobs'') None
       = Inr (JString (lit ''jobs''))"
    by (simp add: apiFetch_def url readPayload_def isJson_def ok_def)
  from never unset url fetched show ?thesis by simp
qed

subsection \<open>C2: normalising the base URL\<close>

text \<open>
  C2, as amended: normalising the base URL is idempotent, on the raw base and also when
  the normalised value is configured again and trimmed; the result always ends in
  \<open>/api\<close>; and it ends in \<open>/api/api\<close> exactly when the configured string, its trailing
  slashes stripped, already does, so the normalisation never appends a second \<open>/api\<close>.
\<close>

theorem C2_base_normalisation:
  "API_BASE (API_BASE raw) = API_BASE raw
   \<and> API_BASE (rawBase (Some (API_BASE (rawBase e1 e2))) e3) = API_BASE (rawBase e1 e2)
   \<and> endsWith (API_BASE raw) (lit ''/api'')
   \<and> endsWith (API_BASE raw) (lit ''/api/api'') = endsWith (normalizedBase raw) (lit ''/api/api'')"
proof -
  have idem: "API_BASE (API_BASE raw) = API_BASE raw"
    by (rule API_BASE_idem)
  have again: "API_BASE (rawBase (Some (API_BASE (rawBase e1 e2))) e3) = API_BASE (rawBase e1 e2)"
    by (simp add: rawBase_API_BASE API_BASE_idem)
  have one: "endsWith (API_BASE raw) (lit ''/api'')"
    by (rule API_BASE_endsWith)
  have two: "endsWith (API_BASE raw) (lit ''/api/api'')
             = endsWith (normalizedBase raw) (lit ''/api/api'')"
    by (rule API_BASE_double)
  from idem again one two show ?thesis by simp
qed

theorem C2_base_normalisation_witness:
  "API_BASE (lit ''http://h/api//'') = lit ''http://h/api''
   \<and> API_BASE (API_BASE (lit ''http://h/api//'')) = lit ''http://h/api''
   \<and> endsWith (API_BASE (lit ''http://h/api//'')) (lit ''/api'')
   \<and> \<not> endsWith (API_BASE (lit ''http://h/api//'')) (lit ''/api/api'')"
proof -
  have v: "API_BASE (lit ''http://h/api//'') = lit ''http://h/api''"
    by (simp add: API_BASE_def normalizedBase_def endsWith_def lit_def)
  have n: "\<not> endsWith (normalizedBase (lit ''http://h/api//'')) (lit ''/api/api'')"
    by (simp add: normalizedBase_def endsWith_def lit_def)
  show ?thesis
    using C2_base_normalisation [of "lit ''http://h/api//''" None None None] v n by simp
qed

text \<open>
  C2 as stated fails: a configured value that already ends in \<open>/api/api\<close> keeps both
  segments.
\<close>

theorem C2_counterexample:
  "API_BASE (rawBase (Some (lit ''http://h/api/api/'')) None) = lit ''http://h/api/api''
   \<and> endsWith (API_BASE (rawBase (Some (lit ''http://h/api/api/'')) None)) (lit ''/api/api'')"
  by (simp add: rawBase_def or_else_def trim_def isWhiteSpace_def API_BASE_def
      normalizedBase_def endsWith_def lit_def)

subsection \<open>C3: the result of loginAdmin\<close>

text \<open>
  C3, as amended. When the response to the login request has a 2xx status and its body
  is read, \<open>loginAdmin\<close> returns \<open>data.admin\<close> if \<open>success\<close> and \<open>admin.username\<close> are
  both truthy. If one of them is missing or falsy, it raises an \<open>ApiError\<close> with
  status 400, whatever the 2xx status: its message is the backend's \<open>message\<close> when that
  is a non-empty string, ``Failed to sign in'' when \<open>message\<close> is missing or falsy, and
  the string of \<open>message\<close> when it is another stringifiable value; when \<open>message\<close> is
  truthy and not stringifiable, the \<open>TypeError\<close> of the conversion is raised instead.
  A response outside 2xx never reaches this test: the error of the transport adapter
  is raised, unchanged, with the status of the response and the message of the adapter
  (or its \<open>TypeError\<close>). A body that is not read raises the \<open>SyntaxError\<close> of the parser.
\<close>

theorem C3_login_result:
  assumes sent: "fetch (API_BASE raw @ lit ''/auth/admin/login'')
                   (buildRequest (loginInit JSON_stringify payload)) = Inr r"
  shows "(\<forall>data. ok r \<and> readPayload r = Inr data \<longrightarrow>
            (\<not> spec_loginFailed data \<longrightarrow>
               loginAdmin JSON_stringify fetch (API_BASE raw) payload
                 = Inr (get data (lit ''admin'')))
          \<and> (spec_loginFailed data \<longrightarrow>
               (\<forall>m. get data (lit ''message'') = Some (JString m) \<and> m \<noteq> [] \<longrightarrow>
                  loginAdmin JSON_stringify fetch (API_BASE raw) payload
                    = Inl (ApiError m 400))
             \<and> (get data (lit ''message'') = None \<longrightarrow>
                  loginAdmin JSON_stringify fetch (API_BASE raw) payload
                    = Inl (ApiError (lit ''Failed to sign in'') 400))
             \<and> (\<forall>v. get data (lit ''message'') = Some v \<and> \<not> truthy v \<longrightarrow>
                  loginAdmin JSON_stringify fetch (API_BASE raw) payload
                    = Inl (ApiError (lit ''Failed to sign in'') 400))
             \<and> (\<forall>v. get data (lit ''message'') = Some v \<and> truthy v \<and> spec_stringifiable v \<longrightarrow>
                  (\<exists>m. ToString v = Inr m
                     \<and> loginAdmin JSON_stringify fetch (API_BASE raw) payload
                         = Inl (ApiError m 400)))
             \<and> (\<forall>v. get data (lit ''message'') = Some v \<and> truthy v \<and> \<not> spec_stringifiable v \<longrightarrow>
                  loginAdmin JSON_stringify fetch (API_BASE raw) payload = Inl TypeError)))
       \<and> (\<forall>reply. \<not> ok r \<and> readPayload r = Inr reply \<longrightarrow>
            (\<exists>e. apiFetch fetch (API_BASE raw) (lit ''/auth/admin/login'')
                   (loginInit JSON_stringify payload) = Inl e
               \<and> loginAdmin JSON_stringify fetch (API_BASE raw) payload = Inl e)
          \<and> (spec_errorField r reply = None \<longrightarrow>
               loginAdmin JSON_stringify fetch (API_BASE raw) payload
                 = Inl (ApiError (spec_message (statusText r)) (status r)))
          \<and> (\<forall>v. spec_errorField r reply = Some v \<and> spec_stringifiable v \<longrightarrow>
               (\<exists>m. ToString v = Inr m
                  \<and> loginAdmin JSON_stringify fetch (API_BASE raw) payload
                      = Inl (ApiError (spec_message m) (status r))))
          \<and> (\<forall>v. spec_errorField r reply = Some v \<and> \<not> spec_stringifiable v \<longrightarrow>
               loginAdmin JSON_stringify fetch (API_BASE raw) payload = Inl TypeError))
       \<and> (\<forall>e. readPayload r = Inl e \<longrightarrow>
            loginAdmin JSON_stringify fetch (API_BASE raw) payload = Inl SyntaxError)"
proof (intro conjI allI impI)
  fix data
  assume transport: "ok r \<and> readPayload r = Inr data"
  from sent have "fetch (API_BASE raw @ normalizedPath (lit ''/auth/admin/login''))
                   (buildRequest (loginInit JSON_stringify payload)) = Inr r"
    by (simp add: normalizedPath_login)
  then have "apiFetch fetch (API_BASE raw) (lit ''/auth/admin/login'')
               (loginInit JSON_stringify payload) = Inr data"
    using transport by (simp add: apiFetch_ok)
  then have result: "loginAdmin JSON_stringify fetch (API_BASE raw) payload =
                  (if spec_loginFailed data then Inl (new_ApiError (loginMessage data) 400)
                   else Inr (get data (lit ''admin'')))"
    by (rule loginAdmin_body)
  show "loginAdmin JSON_stringify fetch (API_BASE raw) payload = Inr (get data (lit ''admin''))"
    if "\<not> spec_loginFailed data"
    using result that by simp
  show "loginAdmin JSON_stringify fetch (API_BASE raw) payload = Inl (ApiError m 400)"
    if "spec_loginFailed data" and "get data (lit ''message'') = Some (JString m) \<and> m \<noteq> []" for m
    using result that by (simp add: new_ApiError_def loginMessage_def)
  show "loginAdmin JSON_stringify fetch (API_BASE raw) payload
          = Inl (ApiError (lit ''Failed to sign in'') 400)"
    if "spec_loginFailed data" and "get data (lit ''message'') = None"
    using result that by (simp add: new_ApiError_def loginMessage_def)
  show "loginAdmin JSON_stringify fetch (API_BASE raw) payload
          = Inl (ApiError (lit ''Failed to sign in'') 400)"
    if "spec_loginFailed data" and "get data (lit ''message'') = Some v \<and> \<not> truthy v" for v
    using result that by (simp add: new_ApiError_def loginMessage_def)
  show "\<exists>m. ToString v = Inr m
          \<and> loginAdmin JSON_stringify fetch (API_BASE raw) payload = Inl (ApiError m 400)"
    if "spec_loginFailed data"
      and v: "get data (lit ''message'') = Some v \<and> truthy v \<and> spec_stringifiable v" for v
  proof -
    from v obtain m where m: "ToString v = Inr m"
      by (auto simp: ToString_stringifiable)
    from v have "loginMessage data = v" by (simp add: loginMessage_def)
    with m result that(1)
    have "loginAdmin JSON_stringify fetch (API_BASE raw) payload = Inl (ApiError m 400)"
      by (simp add: new_ApiError_def)
    with m show ?thesis by blast
  qed
  show "loginAdmin JSON_stringify fetch (API_BASE raw) payload = Inl TypeError"
    if "spec_loginFailed data"
      and v: "get data (lit ''message'') = Some v \<and> truthy v \<and> \<not> spec_stringifiable v" for v
  proof -
    from v have "ToString v = Inl TypeError" by (simp add: ToString_not_stringifiable)
    moreover from v have "loginMessage data = v" by (simp add: loginMessage_def)
    ultimately show ?thesis
      using result that(1) by (simp add: new_ApiError_def)
  qed
next
  fix reply
  assume transport: "\<not> ok r \<and> readPayload r = Inr reply"
  from sent have s: "fetch (API_BASE raw @ normalizedPath (lit ''/auth/admin/login''))
                   (buildRequest (loginInit JSON_stringify payload)) = Inr r"
    by (simp add: normalizedPath_login)
  from transport have failed: "\<not> ok r" and decoded: "readPayload r = Inr reply"
    by simp_all
  note raised = apiFetch_failed [where fetch = fetch, OF s failed decoded]
  have passes: "loginAdmin JSON_stringify fetch (API_BASE raw) payload = Inl e"
    if "apiFetch fetch (API_BASE raw) (lit ''/auth/admin/login'')
          (loginInit JSON_stringify payload) = Inl e" for e
    using that by (rule loginAdmin_error)
  show "\<exists>e. apiFetch fetch (API_BASE raw) (lit ''/auth/admin/login'')
               (loginInit JSON_stringify payload) = Inl e
          \<and> loginAdmin JSON_stringify fetch (API_BASE raw) payload = Inl e"
  proof (cases "apiFetch fetch (API_BASE raw) (lit ''/auth/admin/login'')
              (loginInit JSON_stringify payload)")
    case (Inl e)
    then show ?thesis by (simp add: passes)
  next
    case (Inr d)
    with raised show ?thesis by (simp split: option.splits sum.splits)
  qed
  show "loginAdmin JSON_stringify fetch (API_BASE raw) payload
          = Inl (ApiError (spec_message (statusText r)) (status r))"
    if "spec_errorField r reply = None"
    using raised that by (simp add: passes)
  show "\<exists>m. ToString v = Inr m
          \<and> loginAdmin JSON_stringify fetch (API_BASE raw) payload
              = Inl (ApiError (spec_message m) (status r))"
    if v: "spec_errorField r reply = Some v \<and> spec_stringifiable v" for v
  proof -
    from v obtain m where m: "ToString v = Inr m"
      by (auto simp: ToString_stringifiable)
    with raised v
    have "loginAdmin JSON_stringify fetch (API_BASE raw) payload
            = Inl (ApiError (spec_message m) (status r))"
      by (simp add: passes)
    with m show ?thesis by blast
  qed
  show "loginAdmin JSON_stringify fetch (API_BASE raw) payload = Inl TypeError"
    if v: "spec_errorField r reply = Some v \<and> \<not> spec_stringifiable v" for v
  proof -
    from v have "ToString v = Inl TypeError" by (simp add: ToString_not_stringifiable)
    with raised v show ?thesis by (simp add: passes)
  qed
next
  fix e
  assume unread: "readPayload r = Inl e"
  from sent have "fetch (API_BASE raw @ normalizedPath (lit ''/auth/admin/login''))
                   (buildRequest (loginInit JSON_stringify payload)) = Inr r"
    by (simp add: normalizedPath_login)
  then have "apiFetch fetch (API_BASE raw) (lit ''/auth/admin/login'')
               (loginInit JSON_stringify payload) = Inl SyntaxError"
    using unread by (rule apiFetch_unread)
  then show "loginAdmin JSON_stringify fetch (API_BASE raw) payload = Inl SyntaxError"
    by (rule loginAdmin_error)
qed

theorem C3_login_result_witness:
  "loginAdmin stringify_stub (\<lambda>url request. Inr (jsonResponse 200 (lit ''OK'') badCredentials))
       (API_BASE (lit ''http://h'')) someone
     = Inl (ApiError (lit ''bad credentials'') 400)
   \<and> loginAdmin stringify_stub (\<lambda>url request. Inr (jsonResponse 200 (lit ''OK'') goodLogin))
       (API_BASE (lit ''http://h'')) someone
     = Inr (Some (JObject [(lit ''username'', JString (lit ''a''))]))"
proof -
  have okr: "ok (jsonResponse 200 (lit ''OK'') v)" for v
    by (simp add: ok_def jsonResponse_def)
  have failed: "spec_loginFailed badCredentials"
    by (simp add: spec_loginFailed_def badCredentials_def)
  have msg: "get badCredentials (lit ''message'') = Some (JString (lit ''bad credentials''))"
    by (simp add: badCredentials_def keys_distinct)
  have ne: "lit ''bad credentials'' \<noteq> []" by (simp add: lit_def)
  have passed: "\<not> spec_loginFailed goodLogin"
    by (simp add: spec_loginFailed_def goodLogin_def keys_distinct) (simp add: lit_def)
  have adm: "get goodLogin (lit ''admin'') = Some (JObject [(lit ''username'', JString (lit ''a''))])"
    by (simp add: goodLogin_def keys_distinct)
  have sent: "(\<lambda>url request. Inr (jsonResponse 200 (lit ''OK'') v))
                (API_BASE (lit ''http://h'') @ lit ''/auth/admin/login'')
                (buildRequest (loginInit stringify_stub someone))
              = Inr (jsonResponse 200 (lit ''OK'') v)" for v
    by simp
  note bad = C3_login_result
      [where fetch = "\<lambda>url request. Inr (jsonResponse 200 (lit ''OK'') badCredentials)",
        OF sent, THEN conjunct1, THEN spec, THEN mp, OF conjI, OF okr readPayload_jsonResponse,
        THEN conjunct2, THEN mp, OF failed, THEN conjunct1, THEN spec, THEN mp,
        OF conjI, OF msg ne]
  note good = C3_login_result
      [where fetch = "\<lambda>url request. Inr (jsonResponse 200 (lit ''OK'') goodLogin)",
        OF sent, THEN conjunct1, THEN spec, THEN mp, OF conjI, OF okr readPayload_jsonResponse,
        THEN conjunct1, THEN mp, OF passed]
  from bad good adm show ?thesis by simp
qed

text \<open>
  C3 as stated fails: a 401 response with the body of a failed login raises the adapter's
  error with status 401 and the status text, not status 400 and the backend's message;
  a 200 response whose \<open>admin.username\<close> is present but empty raises; and a 200 response
  of a failed login whose \<open>message\<close> is an object with a property \<open>toString\<close> raises a
  \<open>TypeError\<close>, which has no status.
\<close>

theorem C3_counterexample:
  "loginAdmin stringify_stub
       (\<lambda>url request. Inr (jsonResponse 401 (lit ''Unauthorized'') badCredentials))
       (API_BASE (lit ''http://h'')) someone
     = Inl (ApiError (lit ''Unauthorized'') 401)
   \<and> loginAdmin stringify_stub (\<lambda>url request. Inr (jsonResponse 200 (lit ''OK'') emptyUsername))
       (API_BASE (lit ''http://h'')) someone
     = Inl (ApiError (lit ''Failed to sign in'') 400)
   \<and> loginAdmin stringify_stub (\<lambda>url request. Inr (jsonResponse 200 (lit ''OK'') shadowedMessage))
       (API_BASE (lit ''http://h'')) someone
     = Inl TypeError"
proof -
  have e: "errorMessage (jsonResponse 401 (lit ''Unauthorized'') badCredentials) badCredentials
      = Inr (lit ''Unauthorized'')"
    using isJson_jsonResponse[of 401 "lit ''Unauthorized''" badCredentials]
    by (simp add: errorMessage_def badCredentials_def)
      (simp add: jsonResponse_def lit_def)
  have "apiFetch (\<lambda>url request. Inr (jsonResponse 401 (lit ''Unauthorized'') badCredentials))
          (API_BASE (lit ''http://h'')) (lit ''/auth/admin/login'') (loginInit stringify_stub someone)
        = Inl (ApiError (lit ''Unauthorized'') 401)"
    using e by (simp add: apiFetch_def resolveUrl_API_BASE readPayload_jsonResponse ok_def)
      (simp add: jsonResponse_def)
  then have first: "loginAdmin stringify_stub
       (\<lambda>url request. Inr (jsonResponse 401 (lit ''Unauthorized'') badCredentials))
       (API_BASE (lit ''http://h'')) someone
     = Inl (ApiError (lit ''Unauthorized'') 401)"
    by (simp add: loginAdmin_def loginInit_def)
  have "apiFetch (\<lambda>url request. Inr (jsonResponse 200 (lit ''OK'') emptyUsername))
          (API_BASE (lit ''http://h'')) (lit ''/auth/admin/login'') (loginInit stringify_stub someone)
        = Inr emptyUsername"
    by (simp add: apiFetch_def resolveUrl_API_BASE readPayload_jsonResponse ok_def)
      (simp add: jsonResponse_def)
  then have second: "loginAdmin stringify_stub
       (\<lambda>url request. Inr (jsonResponse 200 (lit ''OK'') emptyUsername))
       (API_BASE (lit ''http://h'')) someone
     = Inl (ApiError (lit ''Failed to sign in'') 400)"
    by (simp add: loginAdmin_def loginInit_def emptyUsername_def keys_distinct truthy_opt_def
        opt_get_def new_ApiError_def loginMessage_def)
  have "apiFetch (\<lambda>url request. Inr (jsonResponse 200 (lit ''OK'') shadowedMessage))
          (API_BASE (lit ''http://h'')) (lit ''/auth/admin/login'') (loginInit stringify_stub someone)
        = Inr shadowedMessage"
    by (simp add: apiFetch_def resolveUrl_API_BASE readPayload_jsonResponse ok_def)
      (simp add: jsonResponse_def)
  then have "loginAdmin stringify_stub
       (\<lambda>url request. Inr (jsonResponse 200 (lit ''OK'') shadowedMessage))
       (API_BASE (lit ''http://h'')) someone
     = Inl TypeError"
    by (simp add: loginAdmin_def loginInit_def shadowedMessage_def shadowed_def keys_distinct
        truthy_opt_def opt_get_def new_ApiError_def loginMessage_def)
  with first second show ?thesis by simp
qed

subsection \<open>C4: the error of a response outside 2xx\<close>

text \<open>
  C4, as amended. For every response outside 2xx whose body is read (a body announced
  as JSON parses), what \<open>apiFetch\<close> raises depends on the \<open>error\<close> field, which is there
  when the body was decoded as JSON and is an object with an \<open>error\<close> key. Without the
  field it is an \<open>ApiError\<close> with the status of the response and the status text as its
  message. With a stringifiable field (a string above all) it is an \<open>ApiError\<close> with the
  status of the response and the string of the field as its message. In both cases the
  generic message stands in for an empty one. With a field that is not stringifiable
  it is the \<open>TypeError\<close> of the conversion, which carries no status.
\<close>

theorem C4_error_of_failed_response:
  assumes sent: "fetch (API_BASE raw @ normalizedPath path) (buildRequest init) = Inr r"
    and failed: "\<not> ok r"
    and decoded: "readPayload r = Inr payload"
  shows "(spec_errorField r payload = None \<longrightarrow>
            apiFetch fetch (API_BASE raw) path init
              = Inl (ApiError (spec_message (statusText r)) (status r)))
       \<and> (\<forall>s. spec_errorField r payload = Some (JString s) \<longrightarrow>
            apiFetch fetch (API_BASE raw) path init
              = Inl (ApiError (spec_message s) (status r)))
       \<and> (\<forall>v. spec_errorField r payload = Some v \<and> spec_stringifiable v \<longrightarrow>
            (\<exists>m. ToString v = Inr m
               \<and> apiFetch fetch (API_BASE raw) path init
                   = Inl (ApiError (spec_message m) (status r))))
       \<and> (\<forall>v. spec_errorField r payload = Some v \<and> \<not> spec_stringifiable v \<longrightarrow>
            apiFetch fetch (API_BASE raw) path init = Inl TypeError)"
proof (intro conjI allI impI)
  note raised = apiFetch_failed [where fetch = fetch, OF sent failed decoded]
  show "apiFetch fetch (API_BASE raw) path init
          = Inl (ApiError (spec_message (statusText r)) (status r))"
    if "spec_errorField r payload = None"
    using raised that by simp
  show "apiFetch fetch (API_BASE raw) path init = Inl (ApiError (spec_message s) (status r))"
    if "spec_errorField r payload = Some (JString s)" for s
    using raised that by simp
  show "\<exists>m. ToString v = Inr m
          \<and> apiFetch fetch (API_BASE raw) path init = Inl (ApiError (spec_message m) (status r))"
    if v: "spec_errorField r payload = Some v \<and> spec_stringifiable v" for v
  proof -
    from v obtain m where m: "ToString v = Inr m"
      by (auto simp: ToString_stringifiable)
    with raised v
    have "apiFetch fetch (API_BASE raw) path init = Inl (ApiError (spec_message m) (status r))"
      by simp
    with m show ?thesis by blast
  qed
  show "apiFetch fetch (API_BASE raw) path init = Inl TypeError"
    if v: "spec_errorField r payload = Some v \<and> \<not> spec_stringifiable v" for v
  proof -
    from v have "ToString v = Inl TypeError" by (simp add: ToString_not_stringifiable)
    with raised v show ?thesis by simp
  qed
qed

theorem C4_error_of_failed_response_witness:
  "apiFetch (\<lambda>url request. Inr notFoundJson) (API_BASE (lit ''http://h'')) (lit ''/jobs/7'') None
     = Inl (ApiError (lit ''Not found'') 404)
   \<and> apiFetch (\<lambda>url request. Inr notFoundText) (API_BASE (lit ''http://h'')) (lit ''/jobs/7'') None
     = Inl (ApiError (lit ''Not Found'') 404)"
proof -
  have a: "readPayload notFoundJson = Inr (JObject [(lit ''error'', JString (lit ''Not found''))])"
    using isJson_notFoundJson by (simp add: readPayload_def) (simp add: notFoundJson_def)
  have b: "readPayload notFoundText = Inr (JString (lit ''Internal Server Error''))"
    using isJson_notFoundText by (simp add: readPayload_def) (simp add: notFoundText_def)
  have na: "\<not> ok notFoundJson" and nb: "\<not> ok notFoundText"
    by (simp_all add: ok_def notFoundJson_def notFoundText_def)
  have sa: "status notFoundJson = 404" "statusText notFoundText = lit ''Not Found''"
     "status notFoundText = 404"
    by (simp_all add: notFoundJson_def notFoundText_def)
  have fa: "spec_errorField notFoundJson (JObject [(lit ''error'', JString (lit ''Not found''))])
              = Some (JString (lit ''Not found''))"
    using isJson_notFoundJson by (simp add: spec_errorField_def)
  have fb: "spec_errorField notFoundText (JString (lit ''Internal Server Error'')) = None"
    using isJson_notFoundText by (simp add: spec_errorField_def)
  have m: "spec_message (lit ''Not found'') = lit ''Not found''"
    "spec_message (lit ''Not Found'') = lit ''Not Found''"
    by (simp_all add: spec_message_def lit_def)
  note first = C4_error_of_failed_response
      [where fetch = "\<lambda>url request. Inr notFoundJson" and raw = "lit ''http://h''"
         and path = "lit ''/jobs/7''" and init = None,
       OF refl na a, THEN conjunct2, THEN conjunct1, THEN spec, THEN mp, OF fa]
  note second = C4_error_of_failed_response
      [where fetch = "\<lambda>url request. Inr notFoundText" and raw = "lit ''http://h''"
         and path = "lit ''/jobs/7''" and init = None,
       OF refl nb b, THEN conjunct1, THEN mp, OF fb]
  from first second sa m show ?thesis by simp
qed

text \<open>
  C4 as stated fails: a 502 response announced as JSON whose body is not JSON raises the
  SyntaxError of \<open>response.json()\<close>, which carries no status; an empty \<open>error\<close> field
  yields the generic message, neither the field nor the status text; and an \<open>error\<close>
  field that is an object with a property \<open>toString\<close> raises a \<open>TypeError\<close>, which
  carries no status either.
\<close>

theorem C4_counterexample:
  "apiFetch (\<lambda>url request. Inr badGateway) (API_BASE (lit ''http://h'')) (lit ''/jobs'') None
     = Inl SyntaxError
   \<and> apiFetch (\<lambda>url request. Inr emptyError) (API_BASE (lit ''http://h'')) (lit ''/jobs'') None
     = Inl (ApiError (lit ''Unexpected API error'') 404)
   \<and> apiFetch (\<lambda>url request. Inr shadowedError) (API_BASE (lit ''http://h'')) (lit ''/jobs'') None
     = Inl TypeError"
proof -
  have "readPayload badGateway = Inl SyntaxError"
    using isJson_badGateway by (simp add: readPayload_def) (simp add: badGateway_def)
  then have first: "apiFetch (\<lambda>url request. Inr badGateway) (API_BASE (lit ''http://h''))
      (lit ''/jobs'') None = Inl SyntaxError"
    by (simp add: apiFetch_def resolveUrl_API_BASE)
  have "readPayload emptyError = Inr (JObject [(lit ''error'', JString [])])"
    using isJson_emptyError by (simp add: readPayload_def) (simp add: emptyError_def)
  moreover have "errorMessage emptyError (JObject [(lit ''error'', JString [])])
      = Inr (lit ''Unexpected API error'')"
    using isJson_emptyError by (simp add: errorMessage_def)
  moreover have "\<not> ok emptyError" "status emptyError = 404"
    by (simp_all add: ok_def emptyError_def)
  ultimately have second: "apiFetch (\<lambda>url request. Inr emptyError) (API_BASE (lit ''http://h''))
      (lit ''/jobs'') None = Inl (ApiError (lit ''Unexpected API error'') 404)"
    by (simp add: apiFetch_def resolveUrl_API_BASE)
  have "readPayload shadowedError = Inr (JObject [(lit ''error'', shadowed)])"
    using isJson_shadowedError by (simp add: readPayload_def) (simp add: shadowedError_def)
  moreover have "errorMessage shadowedError (JObject [(lit ''error'', shadowed)]) = Inl TypeError"
    using isJson_shadowedError by (simp add: errorMessage_def shadowed_def)
  moreover have "\<not> ok shadowedError"
    by (simp add: ok_def shadowedError_def)
  ultimately have "apiFetch (\<lambda>url request. Inr shadowedError) (API_BASE (lit ''http://h''))
      (lit ''/jobs'') None = Inl TypeError"
    by (simp add: apiFetch_def resolveUrl_API_BASE)
  with first second show ?thesis by simp
qed

subsection \<open>C5: the query string of fetchJobs\<close>

text \<open>
  C5: the query of \<open>fetchJobs\<close> holds the pair of \<open>limit\<close> when it is set and not zero,
  and no \<open>limit\<close> when it is unset or zero; it holds the pair of \<open>offset\<close> whenever it is
  a number, zero included, and no \<open>offset\<close> when it is unset; \<open>limit\<close> comes first. The
  endpoint is \<open>/jobs\<close> when there is no pair, and \<open>/jobs?\<close> followed by the pairs
  joined by \<open>&\<close> otherwise: so \<open>fetchJobs({})\<close> requests \<open>/jobs\<close>,
  \<open>fetchJobs({offset: 0})\<close> requests \<open>/jobs?offset=0\<close>, \<open>fetchJobs({limit: 0})\<close> requests
  \<open>/jobs\<close> and \<open>fetchJobs({limit: 100, offset: 0})\<close> requests \<open>/jobs?limit=100&offset=0\<close>.
  The URL fetched is the API base followed by the endpoint as it is: what \<open>fetchJobs\<close>
  returns is read from the response at that URL.
\<close>

theorem C5_jobs_query:
  "searchParams params =
       (case limit params of
          None \<Rightarrow> []
        | Some n \<Rightarrow> if truthyNumber n then [(lit ''limit'', numberToString n)] else [])
       @ (case offset params of None \<Rightarrow> [] | Some n \<Rightarrow> [(lit ''offset'', numberToString n)])
   \<and> (limit params = None \<longrightarrow> lit ''limit'' \<notin> fst ` set (searchParams params))
   \<and> (\<forall>n. limit params = Some n \<and> \<not> truthyNumber n \<longrightarrow>
          lit ''limit'' \<notin> fst ` set (searchParams params))
   \<and> (\<forall>n. limit params = Some n \<and> truthyNumber n \<longrightarrow>
          (lit ''limit'', numberToString n) \<in> set (searchParams params)
          \<and> includes_str (jobsEndpoint params) (lit ''limit='' @ urlencoded (numberToString n)))
   \<and> (offset params = None \<longrightarrow> lit ''offset'' \<notin> fst ` set (searchParams params))
   \<and> (\<forall>n. offset params = Some n \<longrightarrow>
          (lit ''offset'', numberToString n) \<in> set (searchParams params)
          \<and> includes_str (jobsEndpoint params) (lit ''offset='' @ urlencoded (numberToString n)))
   \<and> jobsEndpoint params =
        (if spec_limitPair params @ spec_offsetPair params = [] then lit ''/jobs''
         else lit ''/jobs?'' @ join (lit ''&'') (spec_limitPair params @ spec_offsetPair params))
   \<and> jobsEndpoint \<lparr> limit = None, offset = None \<rparr> = lit ''/jobs''
   \<and> jobsEndpoint \<lparr> limit = None, offset = Some (Num (lit ''0'')) \<rparr> = lit ''/jobs?offset=0''
   \<and> jobsEndpoint \<lparr> limit = Some (Num (lit ''0'')), offset = None \<rparr> = lit ''/jobs''
   \<and> jobsEndpoint \<lparr> limit = Some (Num (lit ''100'')), offset = None \<rparr> = lit ''/jobs?limit=100''
   \<and> jobsEndpoint \<lparr> limit = Some (Num (lit ''100'')), offset = Some (Num (lit ''0'')) \<rparr>
        = lit ''/jobs?limit=100&offset=0''
   \<and> resolveUrl (API_BASE raw) (jobsEndpoint params) = Inr (API_BASE raw @ jobsEndpoint params)
   \<and> (\<forall>e. fetch (API_BASE raw @ jobsEndpoint params) (buildRequest None) = Inl e \<longrightarrow>
          fetchJobs fetch (API_BASE raw) params = Inl e)
   \<and> (\<forall>r payload. fetch (API_BASE raw @ jobsEndpoint params) (buildRequest None) = Inr r
          \<and> ok r \<and> readPayload r = Inr payload \<and> payload \<noteq> JNull \<longrightarrow>
          fetchJobs fetch (API_BASE raw) params
            = Inr \<lparr> jobs = get payload (lit ''data''),
                    pagination = get payload (lit ''pagination'') \<rparr>)"
proof (intro conjI allI impI)
  show "searchParams params =
       (case limit params of
          None \<Rightarrow> []
        | Some n \<Rightarrow> if truthyNumber n then [(lit ''limit'', numberToString n)] else [])
       @ (case offset params of None \<Rightarrow> [] | Some n \<Rightarrow> [(lit ''offset'', numberToString n)])"
    by (rule searchParams_eq)
next
  assume "limit params = None"
  then show "lit ''limit'' \<notin> fst ` set (searchParams params)"
    by (auto simp: searchParams_eq names_distinct split: option.splits)
next
  fix n assume "limit params = Some n \<and> \<not> truthyNumber n"
  then show "lit ''limit'' \<notin> fst ` set (searchParams params)"
    by (auto simp: searchParams_eq names_distinct split: option.splits)
next
  fix n assume "limit params = Some n \<and> truthyNumber n"
  then show "(lit ''limit'', numberToString n) \<in> set (searchParams params)"
    by (simp add: searchParams_eq)
next
  fix n assume "limit params = Some n \<and> truthyNumber n"
  then show "includes_str (jobsEndpoint params) (lit ''limit='' @ urlencoded (numberToString n))"
    by (simp add: jobsEndpoint_limit)
next
  assume "offset params = None"
  then show "lit ''offset'' \<notin> fst ` set (searchParams params)"
    by (auto simp: searchParams_eq names_distinct split: option.splits if_splits)
next
  fix n assume "offset params = Some n"
  then show "(lit ''offset'', numberToString n) \<in> set (searchParams params)"
    by (simp add: searchParams_eq)
next
  fix n assume "offset params = Some n"
  then show "includes_str (jobsEndpoint params) (lit ''offset='' @ urlencoded (numberToString n))"
    by (rule jobsEndpoint_offset)
next
  show "jobsEndpoint params =
        (if spec_limitPair params @ spec_offsetPair params = [] then lit ''/jobs''
         else lit ''/jobs?'' @ join (lit ''&'') (spec_limitPair params @ spec_offsetPair params))"
    by (rule jobsEndpoint_pairs)
next
  show "jobsEndpoint \<lparr> limit = None, offset = None \<rparr> = lit ''/jobs''"
    by (simp add: jobsEndpoint_pairs spec_limitPair_def spec_offsetPair_def)
next
  have "lit ''/jobs?'' @ lit ''offset='' @ lit ''0'' = lit ''/jobs?offset=0''"
    by (simp add: lit_def)
  then show "jobsEndpoint \<lparr> limit = None, offset = Some (Num (lit ''0'')) \<rparr> = lit ''/jobs?offset=0''"
    by (simp add: jobsEndpoint_pairs spec_limitPair_def spec_offsetPair_def urlencoded_zero)
next
  show "jobsEndpoint \<lparr> limit = Some (Num (lit ''0'')), offset = None \<rparr> = lit ''/jobs''"
    by (simp add: jobsEndpoint_pairs spec_limitPair_def spec_offsetPair_def truthyNumber_def)
next
  have t: "truthyNumber (Num (lit ''100''))"
    by (simp add: truthyNumber_def lit_def)
  have "lit ''/jobs?'' @ lit ''limit='' @ lit ''100'' = lit ''/jobs?limit=100''"
    by (simp add: lit_def)
  then show "jobsEndpoint \<lparr> limit = Some (Num (lit ''100'')), offset = None \<rparr> = lit ''/jobs?limit=100''"
    by (simp add: jobsEndpoint_pairs spec_limitPair_def spec_offsetPair_def urlencoded_hundred t)
next
  have t: "truthyNumber (Num (lit ''100''))"
    by (simp add: truthyNumber_def lit_def)
  have "lit ''/jobs?'' @ (lit ''limit='' @ lit ''100'') @ lit ''&'' @ lit ''offset='' @ lit ''0''
          = lit ''/jobs?limit=100&offset=0''"
    by (simp add: lit_def)
  then show "jobsEndpoint \<lparr> limit = Some (Num (lit ''100'')), offset = Some (Num (lit ''0'')) \<rparr>
        = lit ''/jobs?limit=100&offset=0''"
    by (simp add: jobsEndpoint_pairs spec_limitPair_def spec_offsetPair_def urlencoded_hundred
        urlencoded_zero t)
next
  show "resolveUrl (API_BASE raw) (jobsEndpoint params) = Inr (API_BASE raw @ jobsEndpoint params)"
    by (simp add: resolveUrl_API_BASE normalizedPath_jobsEndpoint)
next
  fix e assume "fetch (API_BASE raw @ jobsEndpoint params) (buildRequest None) = Inl e"
  then have "apiFetch fetch (API_BASE raw) (jobsEndpoint params) None = Inl e"
    by (rule fetchJobs_refused)
  then show "fetchJobs fetch (API_BASE raw) params = Inl e"
    by (simp add: fetchJobs_def)
next
  fix r payload
  assume a: "fetch (API_BASE raw @ jobsEndpoint params) (buildRequest None) = Inr r
          \<and> ok r \<and> readPayload r = Inr payload \<and> payload \<noteq> JNull"
  then have "apiFetch fetch (API_BASE raw) (jobsEndpoint params) None = Inr payload"
    by (simp add: fetchJobs_fetched)
  with a show "fetchJobs fetch (API_BASE raw) params
            = Inr \<lparr> jobs = get payload (lit ''data''),
                    pagination = get payload (lit ''pagination'') \<rparr>"
    by (simp add: fetchJobs_def)
qed

theorem C5_jobs_query_witness:
  "(lit ''limit'', lit ''100'')
       \<in> set (searchParams \<lparr> limit = Some (Num (lit ''100'')), offset = Some (Num (lit ''0'')) \<rparr>)
   \<and> (lit ''offset'', lit ''0'')
       \<in> set (searchParams \<lparr> limit = Some (Num (lit ''100'')), offset = Some (Num (lit ''0'')) \<rparr>)
   \<and> lit ''limit'' \<notin> fst ` set (searchParams \<lparr> limit = Some (Num (lit ''0'')), offset = None \<rparr>)
   \<and> lit ''offset'' \<notin> fst ` set (searchParams \<lparr> limit = Some (Num (lit ''0'')), offset = None \<rparr>)
   \<and> lit ''limit'' \<notin> fst ` set (searchParams \<lparr> limit = None, offset = None \<rparr>)
   \<and> jobsEndpoint \<lparr> limit = None, offset = None \<rparr>
       \<noteq> jobsEndpoint \<lparr> limit = None, offset = Some (Num (lit ''0'')) \<rparr>
   \<and> fetchJobs (\<lambda>url request. Inr (jsonResponse 200 (lit ''OK'') jobsPage))
        (API_BASE (lit ''http://h'')) \<lparr> limit = None, offset = None \<rparr>
       = Inr \<lparr> jobs = Some (JArray []), pagination = None \<rparr>
   \<and> fetchJobs (\<lambda>url request. Inl TypeError)
        (API_BASE (lit ''http://h'')) \<lparr> limit = None, offset = None \<rparr>
       = Inl TypeError"
proof -
  have t: "truthyNumber (Num (lit ''100''))" "\<not> truthyNumber (Num (lit ''0''))"
    by (simp_all add: truthyNumber_def lit_def)
  have d: "lit ''/jobs'' \<noteq> lit ''/jobs?offset=0''" by (simp add: lit_def)
  note both = C5_jobs_query
      [where params = "\<lparr> limit = Some (Num (lit ''100'')), offset = Some (Num (lit ''0'')) \<rparr>"]
  note zero = C5_jobs_query
      [where params = "\<lparr> limit = Some (Num (lit ''0'')), offset = None \<rparr>"]
  note none = C5_jobs_query
      [where params = "\<lparr> limit = None, offset = None \<rparr>" and raw = "lit ''http://h''"]
  have a: "(lit ''limit'', lit ''100'')
       \<in> set (searchParams \<lparr> limit = Some (Num (lit ''100'')), offset = Some (Num (lit ''0'')) \<rparr>)"
    using both [THEN conjunct2, THEN conjunct2, THEN conjunct2, THEN conjunct1] t
    by simp
  have b: "(lit ''offset'', lit ''0'')
       \<in> set (searchParams \<lparr> limit = Some (Num (lit ''100'')), offset = Some (Num (lit ''0'')) \<rparr>)"
    using both [THEN conjunct2, THEN conjunct2, THEN conjunct2, THEN conjunct2, THEN conjunct2,
        THEN conjunct1]
    by simp
  have c: "lit ''limit'' \<notin> fst ` set (searchParams \<lparr> limit = Some (Num (lit ''0'')), offset = None \<rparr>)"
    using zero [THEN conjunct2, THEN conjunct2, THEN conjunct1] t
    by simp
  have e: "lit ''offset'' \<notin> fst ` set (searchParams \<lparr> limit = Some (Num (lit ''0'')), offset = None \<rparr>)"
    using zero [THEN conjunct2, THEN conjunct2, THEN conjunct2, THEN conjunct2, THEN conjunct1]
    by simp
  have f: "lit ''limit'' \<notin> fst ` set (searchParams \<lparr> limit = None, offset = None \<rparr>)"
    using none [THEN conjunct2, THEN conjunct1]
    by simp
  have g: "jobsEndpoint \<lparr> limit = None, offset = None \<rparr>
       \<noteq> jobsEndpoint \<lparr> limit = None, offset = Some (Num (lit ''0'')) \<rparr>"
    using none [THEN conjunct2, THEN conjunct2, THEN conjunct2, THEN conjunct2, THEN conjunct2,
        THEN conjunct2, THEN conjunct2, THEN conjunct1]
      none [THEN conjunct2, THEN conjunct2, THEN conjunct2, THEN conjunct2, THEN conjunct2,
        THEN conjunct2, THEN conjunct2, THEN conjunct2, THEN conjunct1] d
    by simp
  have okr: "ok (jsonResponse 200 (lit ''OK'') jobsPage)"
    by (simp add: ok_def jsonResponse_def)
  have page: "jobsPage \<noteq> JNull" "get jobsPage (lit ''data'') = Some (JArray [])"
    "get jobsPage (lit ''pagination'') = None"
    by (simp_all add: jobsPage_def keys_distinct) (simp add: lit_def)
  have h: "fetchJobs (\<lambda>url request. Inr (jsonResponse 200 (lit ''OK'') jobsPage))
        (API_BASE (lit ''http://h'')) \<lparr> limit = None, offset = None \<rparr>
       = Inr \<lparr> jobs = Some (JArray []), pagination = None \<rparr>"
    using none [where fetch = "\<lambda>url request. Inr (jsonResponse 200 (lit ''OK'') jobsPage)",
        THEN conjunct2, THEN conjunct2, THEN conjunct2, THEN conjunct2, THEN conjunct2,
        THEN conjunct2, THEN conjunct2, THEN conjunct2, THEN conjunct2, THEN conjunct2,
        THEN conjunct2, THEN conjunct2, THEN conjunct2, THEN conjunct2,
        THEN spec, THEN spec, THEN mp,
        OF conjI, OF refl, OF conjI, OF okr, OF conjI, OF readPayload_jsonResponse page(1)]
      page(2,3)
    by simp
  have i: "fetchJobs (\<lambda>url request. Inl TypeError)
        (API_BASE (lit ''http://h'')) \<lparr> limit = None, offset = None \<rparr>
       = Inl TypeError"
    using none [where fetch = "\<lambda>url request. Inl TypeError",
        THEN conjunct2, THEN conjunct2, THEN conjunct2, THEN conjunct2, THEN conjunct2,
        THEN conjunct2, THEN conjunct2, THEN conjunct2, THEN conjunct2, THEN conjunct2,
        THEN conjunct2, THEN conjunct2, THEN conjunct2, THEN conjunct1,
        THEN spec, THEN mp, OF refl]
    by simp
  from a b c e f g h i show ?thesis by simp
qed

subsection \<open>C6: hydrating the session store\<close>

text \<open>
  C6: whatever the storage holds, \<open>hydrate\<close> returns a state (the effect has no error
  result: the errors of its \<open>try\<close> block are caught) and the state is hydrated. When
  reading or parsing fails, with the SecurityError of a denied storage or the SyntaxError
  of invalid JSON, the effect logs one warning and changes nothing else. So from the
  initial state of the store it ends in one of the two hydrated states, and after such a
  failure in the unauthenticated one.
\<close>

theorem C6_hydrate:
  "hydrated (fst (hydrate JSON_parse env s))
   \<and> (\<forall>e. restoreSession JSON_parse env = Inl e \<longrightarrow>
          hydrate JSON_parse env s = (s\<lparr> hydrated := True \<rparr>, [(restoreWarning, e)]))
   \<and> (spec_hydratedAuthenticated (fst (hydrate JSON_parse env initial_state))
        \<or> spec_hydratedUnauthenticated (fst (hydrate JSON_parse env initial_state)))
   \<and> (\<forall>e. restoreSession JSON_parse env = Inl e \<longrightarrow>
          hydrate JSON_parse env initial_state
            = (\<lparr> admin = None, hydrated = True \<rparr>, [(restoreWarning, e)])
          \<and> spec_hydratedUnauthenticated (fst (hydrate JSON_parse env initial_state)))
   \<and> (has_window env \<and> storage_denied env \<longrightarrow> restoreSession JSON_parse env = Inl SecurityError)
   \<and> (\<forall>stored. has_window env \<and> \<not> storage_denied env \<and> items env STORAGE_KEY = Some stored
          \<and> stored \<noteq> [] \<and> JSON_parse stored = None \<longrightarrow>
          restoreSession JSON_parse env = Inl SyntaxError)"
proof (intro conjI allI impI)
  show "hydrated (fst (hydrate JSON_parse env s))"
    by (simp add: hydrate_def split: sum.splits option.splits)
next
  fix e assume "restoreSession JSON_parse env = Inl e"
  then show "hydrate JSON_parse env s = (s\<lparr> hydrated := True \<rparr>, [(restoreWarning, e)])"
    by (simp add: hydrate_def restoreWarning_def)
next
  show "spec_hydratedAuthenticated (fst (hydrate JSON_parse env initial_state))
        \<or> spec_hydratedUnauthenticated (fst (hydrate JSON_parse env initial_state))"
  proof (cases "restoreSession JSON_parse env")
    case (Inl e)
    then show ?thesis by (simp add: hydrate_initial spec_hydratedUnauthenticated_def)
  next
    case (Inr restored)
    show ?thesis
    proof (cases restored)
      case None
      with Inr show ?thesis by (simp add: hydrate_initial spec_hydratedUnauthenticated_def)
    next
      case (Some parsed)
      with Inr have "truthy parsed" by (simp add: restoreSession_Some)
      with Inr Some show ?thesis
        by (simp add: hydrate_initial spec_hydratedAuthenticated_def isAuthenticated_def
            truthy_opt_def)
    qed
  qed
next
  fix e assume "restoreSession JSON_parse env = Inl e"
  then show "hydrate JSON_parse env initial_state
            = (\<lparr> admin = None, hydrated = True \<rparr>, [(restoreWarning, e)])"
    by (simp add: hydrate_initial)
next
  fix e assume "restoreSession JSON_parse env = Inl e"
  then show "spec_hydratedUnauthenticated (fst (hydrate JSON_parse env initial_state))"
    by (simp add: hydrate_initial spec_hydratedUnauthenticated_def)
next
  assume "has_window env \<and> storage_denied env"
  then show "restoreSession JSON_parse env = Inl SecurityError"
    by (simp add: restoreSession_def getItem_def)
next
  fix stored
  assume "has_window env \<and> \<not> storage_denied env \<and> items env STORAGE_KEY = Some stored
          \<and> stored \<noteq> [] \<and> JSON_parse stored = None"
  then show "restoreSession JSON_parse env = Inl SyntaxError"
    by (simp add: restoreSession_def getItem_def)
qed

theorem C6_hydrate_witness:
  "hydrate sampleParse (browser [STORAGE_KEY \<mapsto> lit ''oops'']) initial_state
     = (\<lparr> admin = None, hydrated = True \<rparr>, [(restoreWarning, SyntaxError)])
   \<and> hydrate sampleParse ((browser Map.empty)\<lparr> storage_denied := True \<rparr>) initial_state
     = (\<lparr> admin = None, hydrated = True \<rparr>, [(restoreWarning, SecurityError)])"
proof -
  have a: "restoreSession sampleParse (browser [STORAGE_KEY \<mapsto> lit ''oops'']) = Inl SyntaxError"
    using C6_hydrate [of sampleParse "browser [STORAGE_KEY \<mapsto> lit ''oops'']" initial_state]
      sessionText_nonempty oops_not_session
    by (simp add: browser_def sampleParse_def)
  have b: "restoreSession sampleParse ((browser Map.empty)\<lparr> storage_denied := True \<rparr>)
      = Inl SecurityError"
    using C6_hydrate [of sampleParse "(browser Map.empty)\<lparr> storage_denied := True \<rparr>" initial_state]
    by (simp add: browser_def)
  show ?thesis
    using C6_hydrate [of sampleParse "browser [STORAGE_KEY \<mapsto> lit ''oops'']" initial_state]
      C6_hydrate [of sampleParse "(browser Map.empty)\<lparr> storage_denied := True \<rparr>" initial_state] a b
    by (simp add: initial_state_def)
qed

subsection \<open>C7: setSession\<close>

text \<open>
  C7, as amended: in a browser whose storage can be accessed (and, for writing, is not
  full), \<open>setSession\<close> with a session persists it and sets the identity of the store,
  and \<open>setSession(null)\<close> removes the persisted record and clears the identity; neither
  touches the hydrated flag, so a hydrated store moves to hydrated-authenticated and to
  hydrated-unauthenticated. Where \<open>window\<close> is undefined \<open>setSession\<close> changes nothing.
  Whenever \<open>setSession\<close> with a session and then \<open>setSession(null)\<close> both return, a
  fresh \<open>hydrate\<close> on the resulting storage ends unauthenticated, without a warning.
\<close>

theorem C7_setSession:
  "(\<forall>v. has_window env \<and> \<not> storage_denied env \<and> \<not> quota_exceeded env \<and> truthy v \<longrightarrow>
        saveSession JSON_stringify env (Some v) s
          = Inr (env\<lparr> items := (items env)(STORAGE_KEY \<mapsto> JSON_stringify v) \<rparr>,
                 s\<lparr> admin := Some v \<rparr>)
        \<and> (hydrated s \<longrightarrow> spec_hydratedAuthenticated (s\<lparr> admin := Some v \<rparr>)))
   \<and> (has_window env \<and> \<not> storage_denied env \<longrightarrow>
        saveSession JSON_stringify env None s
          = Inr (env\<lparr> items := (items env)(STORAGE_KEY := None) \<rparr>, s\<lparr> admin := None \<rparr>)
        \<and> (hydrated s \<longrightarrow> spec_hydratedUnauthenticated (s\<lparr> admin := None \<rparr>)))
   \<and> (\<not> has_window env \<longrightarrow> saveSession JSON_stringify env session s = Inr (env, s))
   \<and> (\<forall>v env1 s1 env2 s2.
        saveSession JSON_stringify env (Some v) s = Inr (env1, s1)
        \<and> saveSession JSON_stringify env1 None s1 = Inr (env2, s2) \<longrightarrow>
        hydrate JSON_parse env2 initial_state = (\<lparr> admin = None, hydrated = True \<rparr>, [])
        \<and> spec_hydratedUnauthenticated (fst (hydrate JSON_parse env2 initial_state)))"
proof (intro conjI allI impI)
  fix v
  assume a: "has_window env \<and> \<not> storage_denied env \<and> \<not> quota_exceeded env \<and> truthy v"
  then show "saveSession JSON_stringify env (Some v) s
          = Inr (env\<lparr> items := (items env)(STORAGE_KEY \<mapsto> JSON_stringify v) \<rparr>,
                 s\<lparr> admin := Some v \<rparr>)"
    by (simp add: saveSession_def setItem_def truthy_opt_def)
  assume "hydrated s"
  with a show "spec_hydratedAuthenticated (s\<lparr> admin := Some v \<rparr>)"
    by (simp add: spec_hydratedAuthenticated_def isAuthenticated_def truthy_opt_def)
next
  assume a: "has_window env \<and> \<not> storage_denied env"
  then show "saveSession JSON_stringify env None s
          = Inr (env\<lparr> items := (items env)(STORAGE_KEY := None) \<rparr>, s\<lparr> admin := None \<rparr>)"
    by (simp add: saveSession_def removeItem_def truthy_opt_def)
  assume "hydrated s"
  then show "spec_hydratedUnauthenticated (s\<lparr> admin := None \<rparr>)"
    by (simp add: spec_hydratedUnauthenticated_def)
next
  assume "\<not> has_window env"
  then show "saveSession JSON_stringify env session s = Inr (env, s)"
    by (rule saveSession_server)
next
  fix v env1 s1 env2 s2
  assume "saveSession JSON_stringify env (Some v) s = Inr (env1, s1)
        \<and> saveSession JSON_stringify env1 None s1 = Inr (env2, s2)"
  then have "has_window env2 \<longrightarrow> \<not> storage_denied env2 \<and> items env2 STORAGE_KEY = None"
    using saveSession_null by blast
  then have r: "restoreSession JSON_parse env2 = Inr None"
    by (rule restoreSession_removed)
  then show "hydrate JSON_parse env2 initial_state = (\<lparr> admin = None, hydrated = True \<rparr>, [])"
    by (simp add: hydrate_initial)
  from r show "spec_hydratedUnauthenticated (fst (hydrate JSON_parse env2 initial_state))"
    by (simp add: hydrate_initial spec_hydratedUnauthenticated_def)
qed

theorem C7_setSession_witness:
  "saveSession sampleStringify (browser Map.empty) (Some sampleSession)
       \<lparr> admin = None, hydrated = True \<rparr>
     = Inr (browser [STORAGE_KEY \<mapsto> sessionText], \<lparr> admin = Some sampleSession, hydrated = True \<rparr>)
   \<and> spec_hydratedAuthenticated \<lparr> admin = Some sampleSession, hydrated = True \<rparr>
   \<and> saveSession sampleStringify (browser [STORAGE_KEY \<mapsto> sessionText]) None
       \<lparr> admin = Some sampleSession, hydrated = True \<rparr>
     = Inr (browser Map.empty, \<lparr> admin = None, hydrated = True \<rparr>)
   \<and> hydrate sampleParse (browser Map.empty) initial_state
     = (\<lparr> admin = None, hydrated = True \<rparr>, [])"
proof -
  have first: "saveSession sampleStringify (browser Map.empty) (Some sampleSession)
       \<lparr> admin = None, hydrated = True \<rparr>
     = Inr (browser [STORAGE_KEY \<mapsto> sessionText], \<lparr> admin = Some sampleSession, hydrated = True \<rparr>)"
    and auth: "spec_hydratedAuthenticated \<lparr> admin = Some sampleSession, hydrated = True \<rparr>"
    using C7_setSession [of "browser Map.empty" sampleStringify "\<lparr> admin = None, hydrated = True \<rparr>"]
      truthy_sampleSession
    by (simp_all add: browser_def sampleStringify_def)
  have second: "saveSession sampleStringify (browser [STORAGE_KEY \<mapsto> sessionText]) None
       \<lparr> admin = Some sampleSession, hydrated = True \<rparr>
     = Inr (browser Map.empty, \<lparr> admin = None, hydrated = True \<rparr>)"
    using C7_setSession [of "browser [STORAGE_KEY \<mapsto> sessionText]" sampleStringify
        "\<lparr> admin = Some sampleSession, hydrated = True \<rparr>"]
    by (simp add: browser_def)
  have "hydrate sampleParse (browser Map.empty) initial_state
     = (\<lparr> admin = None, hydrated = True \<rparr>, [])"
    using C7_setSession [of "browser Map.empty" sampleStringify "\<lparr> admin = None, hydrated = True \<rparr>"
        None sampleParse] first second
    by blast
  with first auth second show ?thesis by simp
qed

text \<open>
  C7 as stated fails: where \<open>window\<close> is undefined, \<open>setSession\<close> with a session leaves
  the storage and the store as they were; on a store that is not yet hydrated it sets
  the identity but the store stays unhydrated, so it is not authenticated; and when the
  storage denies access or is full, the error of \<open>setItem\<close> is thrown and nothing is set.
\<close>

theorem C7_counterexample:
  "saveSession sampleStringify server (Some sampleSession) \<lparr> admin = None, hydrated = True \<rparr>
     = Inr (server, \<lparr> admin = None, hydrated = True \<rparr>)
   \<and> items server STORAGE_KEY = None
   \<and> \<not> isAuthenticated \<lparr> admin = None, hydrated = True \<rparr>
   \<and> saveSession sampleStringify (browser Map.empty) (Some sampleSession) initial_state
     = Inr (browser [STORAGE_KEY \<mapsto> sessionText], \<lparr> admin = Some sampleSession, hydrated = False \<rparr>)
   \<and> \<not> isAuthenticated \<lparr> admin = Some sampleSession, hydrated = False \<rparr>
   \<and> saveSession sampleStringify ((browser Map.empty)\<lparr> storage_denied := True \<rparr>)
         (Some sampleSession) \<lparr> admin = None, hydrated = True \<rparr>
     = Inl SecurityError
   \<and> saveSession sampleStringify ((browser Map.empty)\<lparr> quota_exceeded := True \<rparr>)
         (Some sampleSession) \<lparr> admin = None, hydrated = True \<rparr>
     = Inl QuotaExceededError"
  by (simp add: saveSession_def server_def browser_def setItem_def truthy_opt_def
      sampleSession_def sampleStringify_def isAuthenticated_def initial_state_def)

subsection \<open>C8: the leading slash of the path\<close>

text \<open>
  C8: for every path with the leading slash optional, that is, a path that starts with
  one slash or with none, \<open>resolveUrl\<close> appends the normalised path to the API base, and
  the normalised path starts with exactly one slash: it is the path itself when that
  starts with a slash, and the path with one slash put in front otherwise. The paths
  that \<open>loginAdmin\<close>, \<open>fetchJobs\<close>, \<open>createJob\<close> and \<open>updateJob\<close> pass are of this kind:
  each starts with exactly one slash.
\<close>

theorem C8_path_normalisation:
  assumes optional: "leadingSlashes path \<le> 1"
  shows "resolveUrl (API_BASE raw) path = Inr (API_BASE raw @ normalizedPath path)
       \<and> normalizedPath path = (if leadingSlashes path = 0 then lit ''/'' @ path else path)
       \<and> leadingSlashes (normalizedPath path) = 1
       \<and> leadingSlashes (lit ''/auth/admin/login'') = 1
       \<and> leadingSlashes (jobsEndpoint params) = 1
       \<and> leadingSlashes (lit ''/jobs'') = 1
       \<and> leadingSlashes (lit ''/jobs/'' @ numberToString jobId) = 1"
proof -
  have sites: "leadingSlashes (lit ''/auth/admin/login'') = 1"
    "leadingSlashes (jobsEndpoint params) = 1"
    "leadingSlashes (lit ''/jobs'') = 1"
    "leadingSlashes (lit ''/jobs/'' @ numberToString jobId) = 1"
    by (simp_all add: leadingSlashes_def jobsEndpoint_def Let_def lit_def)
  have "API_BASE raw \<noteq> []" by (rule API_BASE_nonempty)
  then have url: "resolveUrl (API_BASE raw) path = Inr (API_BASE raw @ normalizedPath path)"
    by (simp add: resolveUrl_def)
  have shape: "normalizedPath path = (if leadingSlashes path = 0 then lit ''/'' @ path else path)"
    by (rule normalizedPath_cases)
  have "leadingSlashes (normalizedPath path) = max 1 (leadingSlashes path)"
    by (rule leadingSlashes_normalizedPath)
  with optional have count: "leadingSlashes (normalizedPath path) = 1"
    by simp
  from url shape count sites show ?thesis by simp
qed

theorem C8_path_normalisation_witness:
  "resolveUrl (API_BASE (lit ''http://h'')) (lit ''jobs'') = Inr (lit ''http://h/api/jobs'')
   \<and> resolveUrl (API_BASE (lit ''http://h'')) (lit ''/jobs'') = Inr (lit ''http://h/api/jobs'')
   \<and> leadingSlashes (normalizedPath (lit ''jobs'')) = 1
   \<and> leadingSlashes (normalizedPath (lit ''/jobs'')) = 1"
proof -
  have b: "API_BASE (lit ''http://h'') = lit ''http://h/api''"
    by (simp add: API_BASE_def normalizedBase_def endsWith_def lit_def)
  have l: "leadingSlashes (lit ''jobs'') = 0" "leadingSlashes (lit ''/jobs'') = 1"
    by (simp_all add: leadingSlashes_def lit_def)
  have none: "leadingSlashes (lit ''jobs'') \<le> 1" and one: "leadingSlashes (lit ''/jobs'') \<le> 1"
    by (simp_all add: l)
  show ?thesis
    using C8_path_normalisation [OF none, where raw = "lit ''http://h''", THEN conjunct1]
      C8_path_normalisation [OF one, where raw = "lit ''http://h''", THEN conjunct1]
      C8_path_normalisation [OF none, THEN conjunct2, THEN conjunct1]
      C8_path_normalisation [OF one, THEN conjunct2, THEN conjunct1]
      C8_path_normalisation [OF none, THEN conjunct2, THEN conjunct2, THEN conjunct1]
      C8_path_normalisation [OF one, THEN conjunct2, THEN conjunct2, THEN conjunct1] b l
    by (simp add: lit_def)
qed

subsection \<open>C9: the tech list of the job payload\<close>

text \<open>
  C9: \<open>techArray\<close> splits the tech string on commas (the pieces, joined by commas, give
  the string back, and no piece holds a comma), trims every piece and drops the empty
  ones, in order; so every entry is non-empty, trimmed and free of commas. It depends
  on the form values alone, and it is the \<open>tech\<close> field of the payload and of the value
  serialised as the request body. In create mode the handler gives the payload to
  \<open>createJob\<close>: the request goes to \<open>/jobs\<close> with that body; the job of a 2xx reply is
  the one to put in front of the list, and an error comes back as a plain \<open>Error\<close> that
  keeps the message only.
\<close>

theorem C9_tech_list:
  "join (lit '','') (split_unit 0x002C t) = t
   \<and> (\<forall>p \<in> set (split_unit 0x002C t). 0x002C \<notin> set p)
   \<and> techArray t = filter (\<lambda>e. e \<noteq> []) (map trim (split_unit 0x002C t))
   \<and> (\<forall>e \<in> set (techArray t).
         e \<noteq> [] \<and> trim e = e \<and> \<not> isWhiteSpace (hd e) \<and> \<not> isWhiteSpace (last e)
         \<and> 0x002C \<notin> set e)
   \<and> tech (jobPayload values) = techArray (form_tech values)
   \<and> get (payload_json (jobPayload values)) (lit ''tech'')
       = Some (JArray (map JString (techArray (form_tech values))))
   \<and> handleSubmitJob JSON_stringify engine_message fetch base Create selectedJob values
       = (case createJob JSON_stringify fetch base (jobPayload values) of
            Inl e \<Rightarrow> Inl (Error (message_of engine_message e))
          | Inr newJob \<Rightarrow> Inr (Created newJob))
   \<and> (\<forall>e. fetch (API_BASE raw @ lit ''/jobs'')
             (buildRequest
               (Some \<lparr> http_method = Some (lit ''POST''),
                       body = Some (JSON_stringify (payload_json (jobPayload values))),
                       skipContentType = None \<rparr>)) = Inl e \<longrightarrow>
          handleSubmitJob JSON_stringify engine_message fetch (API_BASE raw) Create selectedJob values
            = Inl (Error (message_of engine_message e)))
   \<and> (\<forall>r reply. fetch (API_BASE raw @ lit ''/jobs'')
             (buildRequest
               (Some \<lparr> http_method = Some (lit ''POST''),
                       body = Some (JSON_stringify (payload_json (jobPayload values))),
                       skipContentType = None \<rparr>)) = Inr r
          \<and> ok r \<and> readPayload r = Inr reply \<and> reply \<noteq> JNull \<longrightarrow>
          handleSubmitJob JSON_stringify engine_message fetch (API_BASE raw) Create selectedJob values
            = Inr (Created (get reply (lit ''data''))))
   \<and> (\<forall>r reply s. fetch (API_BASE raw @ lit ''/jobs'')
             (buildRequest
               (Some \<lparr> http_method = Some (lit ''POST''),
                       body = Some (JSON_stringify (payload_json (jobPayload values))),
                       skipContentType = None \<rparr>)) = Inr r
          \<and> \<not> ok r \<and> readPayload r = Inr reply
          \<and> spec_errorField r reply = Some (JString s) \<longrightarrow>
          handleSubmitJob JSON_stringify engine_message fetch (API_BASE raw) Create selectedJob values
            = Inl (Error (spec_message s)))"
proof (intro conjI ballI allI impI)
  show "join (lit '','') (split_unit 0x002C t) = t"
    by (simp add: lit_comma join_split_unit)
next
  fix p assume "p \<in> set (split_unit 0x002C t)"
  then show "0x002C \<notin> set p" by (rule split_unit_pieces)
next
  show "techArray t = filter (\<lambda>e. e \<noteq> []) (map trim (split_unit 0x002C t))"
    by (simp add: techArray_def)
next
  fix e assume e: "e \<in> set (techArray t)"
  then obtain p where p: "p \<in> set (split_unit 0x002C t)" "e = trim p" and ne: "e \<noteq> []"
    by (auto simp: techArray_member)
  from ne show "e \<noteq> []" .
  from p show "trim e = e" by (simp add: trim_trim)
  from p ne show "\<not> isWhiteSpace (hd e)" using trim_ends[of p] by simp
  from p ne show "\<not> isWhiteSpace (last e)" using trim_ends[of p] by simp
  from p have "set e \<subseteq> set p" by (simp add: set_trim)
  with p show "0x002C \<notin> set e" using split_unit_pieces by blast
next
  show "tech (jobPayload values) = techArray (form_tech values)"
    by (simp add: jobPayload_def)
next
  show "get (payload_json (jobPayload values)) (lit ''tech'')
       = Some (JArray (map JString (techArray (form_tech values))))"
    by (simp add: payload_tech jobPayload_def)
next
  show "handleSubmitJob JSON_stringify engine_message fetch base Create selectedJob values
       = (case createJob JSON_stringify fetch base (jobPayload values) of
            Inl e \<Rightarrow> Inl (Error (message_of engine_message e))
          | Inr newJob \<Rightarrow> Inr (Created newJob))"
    by (simp add: handleSubmitJob_def split: sum.splits)
next
  fix e
  assume "fetch (API_BASE raw @ lit ''/jobs'')
             (buildRequest
               (Some \<lparr> http_method = Some (lit ''POST''),
                       body = Some (JSON_stringify (payload_json (jobPayload values))),
                       skipContentType = None \<rparr>)) = Inl e"
  then have "createJob JSON_stringify fetch (API_BASE raw) (jobPayload values) = Inl e"
    by (simp add: createJob_refused)
  then show "handleSubmitJob JSON_stringify engine_message fetch (API_BASE raw) Create selectedJob values
            = Inl (Error (message_of engine_message e))"
    by (simp add: handleSubmitJob_def)
next
  fix r reply
  assume "fetch (API_BASE raw @ lit ''/jobs'')
             (buildRequest
               (Some \<lparr> http_method = Some (lit ''POST''),
                       body = Some (JSON_stringify (payload_json (jobPayload values))),
                       skipContentType = None \<rparr>)) = Inr r
          \<and> ok r \<and> readPayload r = Inr reply \<and> reply \<noteq> JNull"
  then have "createJob JSON_stringify fetch (API_BASE raw) (jobPayload values)
               = Inr (get reply (lit ''data''))"
    by (simp add: createJob_created)
  then show "handleSubmitJob JSON_stringify engine_message fetch (API_BASE raw) Create selectedJob values
            = Inr (Created (get reply (lit ''data'')))"
    by (simp add: handleSubmitJob_def)
next
  fix r reply s
  assume "fetch (API_BASE raw @ lit ''/jobs'')
             (buildRequest
               (Some \<lparr> http_method = Some (lit ''POST''),
                       body = Some (JSON_stringify (payload_json (jobPayload values))),
                       skipContentType = None \<rparr>)) = Inr r
          \<and> \<not> ok r \<and> readPayload r = Inr reply
          \<and> spec_errorField r reply = Some (JString s)"
  then have "createJob JSON_stringify fetch (API_BASE raw) (jobPayload values)
               = Inl (ApiError (spec_message s) (status r))"
    by (simp add: createJob_failed)
  then show "handleSubmitJob JSON_stringify engine_message fetch (API_BASE raw) Create selectedJob values
            = Inl (Error (spec_message s))"
    by (simp add: handleSubmitJob_def)
qed

theorem C9_tech_list_witness:
  "techArray (lit '' React, Node.js ,, Go ,'') = [lit ''React'', lit ''Node.js'', lit ''Go'']
   \<and> lit ''React'' \<noteq> [] \<and> trim (lit ''React'') = lit ''React''
   \<and> 0x002C \<notin> set (lit ''React'')
   \<and> handleSubmitJob stringify_stub engine_stub
        (\<lambda>url request. Inr (jsonResponse 201 (lit ''Created'') createdReply))
        (API_BASE (lit ''http://h'')) Create None sampleForm
       = Inr (Created (Some (JObject [(lit ''id'', JNumber (Num (lit ''7'')))])))
   \<and> handleSubmitJob stringify_stub engine_stub
        (\<lambda>url request. Inr (jsonResponse 500 (lit ''Internal Server Error'') boomReply))
        (API_BASE (lit ''http://h'')) Create None sampleForm
       = Inl (Error (lit ''boom''))
   \<and> handleSubmitJob stringify_stub engine_stub (\<lambda>url request. Inl TypeError)
        (API_BASE (lit ''http://h'')) Create None sampleForm
       = Inl (Error (lit ''Failed to fetch''))"
proof -
  have v: "techArray (lit '' React, Node.js ,, Go ,'') = [lit ''React'', lit ''Node.js'', lit ''Go'']"
    by (simp add: techArray_def trim_def isWhiteSpace_def lit_def)
  then have "lit ''React'' \<in> set (techArray (lit '' React, Node.js ,, Go ,''))" by simp
  with C9_tech_list [where t = "lit '' React, Node.js ,, Go ,''", THEN conjunct2, THEN conjunct2,
      THEN conjunct2, THEN conjunct1]
  have entry: "lit ''React'' \<noteq> [] \<and> trim (lit ''React'') = lit ''React''
      \<and> 0x002C \<notin> set (lit ''React'')"
    by blast
  note handler = C9_tech_list [where JSON_stringify = stringify_stub
      and engine_message = engine_stub and raw = "lit ''http://h''" and selectedJob = None,
      of _ sampleForm]
  have created: "ok (jsonResponse 201 (lit ''Created'') createdReply)"
    and failed: "\<not> ok (jsonResponse 500 (lit ''Internal Server Error'') boomReply)"
    by (simp_all add: ok_def jsonResponse_def)
  have reply: "createdReply \<noteq> JNull"
    "get createdReply (lit ''data'') = Some (JObject [(lit ''id'', JNumber (Num (lit ''7'')))])"
    by (simp_all add: createdReply_def)
  have boom: "spec_errorField (jsonResponse 500 (lit ''Internal Server Error'') boomReply) boomReply
      = Some (JString (lit ''boom''))"
    "spec_message (lit ''boom'') = lit ''boom''"
    using isJson_jsonResponse[of 500 "lit ''Internal Server Error''" boomReply]
    by (simp_all add: spec_errorField_def boomReply_def spec_message_def) (simp add: lit_def)
  have first: "handleSubmitJob stringify_stub engine_stub
        (\<lambda>url request. Inr (jsonResponse 201 (lit ''Created'') createdReply))
        (API_BASE (lit ''http://h'')) Create None sampleForm
       = Inr (Created (Some (JObject [(lit ''id'', JNumber (Num (lit ''7'')))])))"
    using handler [where fetch = "\<lambda>url request. Inr (jsonResponse 201 (lit ''Created'') createdReply)",
        THEN conjunct2, THEN conjunct2, THEN conjunct2, THEN conjunct2,
        THEN conjunct2, THEN conjunct2, THEN conjunct2,
        THEN conjunct2, THEN conjunct1, THEN spec, THEN spec, THEN mp,
        OF conjI, OF refl, OF conjI, OF created, OF conjI, OF readPayload_jsonResponse reply(1)]
      reply(2)
    by simp
  have second: "handleSubmitJob stringify_stub engine_stub
        (\<lambda>url request. Inr (jsonResponse 500 (lit ''Internal Server Error'') boomReply))
        (API_BASE (lit ''http://h'')) Create None sampleForm
       = Inl (Error (lit ''boom''))"
    using handler [where fetch = "\<lambda>url request. Inr (jsonResponse 500 (lit ''Internal Server Error'') boomReply)",
        THEN conjunct2, THEN conjunct2, THEN conjunct2, THEN conjunct2,
        THEN conjunct2, THEN conjunct2, THEN conjunct2,
        THEN conjunct2, THEN conjunct2, THEN spec, THEN spec, THEN spec, THEN mp,
        OF conjI, OF refl, OF conjI, OF failed, OF conjI, OF readPayload_jsonResponse boom(1)]
      boom(2)
    by simp
  have third: "handleSubmitJob stringify_stub engine_stub (\<lambda>url request. Inl TypeError)
        (API_BASE (lit ''http://h'')) Create None sampleForm
       = Inl (Error (lit ''Failed to fetch''))"
    using handler [where fetch = "\<lambda>url request. Inl TypeError",
        THEN conjunct2, THEN conjunct2, THEN conjunct2, THEN conjunct2,
        THEN conjunct2, THEN conjunct2, THEN conjunct2,
        THEN conjunct1, THEN spec, THEN mp, OF refl]
    by (simp add: engine_stub_def)
  from v entry first second third show ?thesis by simp
qed

subsection \<open>C10: the initials\<close>

text \<open>
  C10, as amended: \<open>getAdminInitials\<close> never returns the empty string. It returns \<open>A\<close>
  when the user name is missing, empty or without a non-empty part; otherwise the
  upper-cased first units of at most the first two parts. The parts are the words of
  the name: a separator divides the parts on its left from those on its right, and a
  non-empty name without separators is one part. The result has at most two units when
  the first two parts start with ASCII units, or with any units whose upper case is one
  unit, and at most six in general, since upper-casing one unit can give up to three.
\<close>

theorem C10_initials:
  "getAdminInitials username \<noteq> []
   \<and> length (getAdminInitials username) \<le> 6
   \<and> getAdminInitials None = lit ''A''
   \<and> getAdminInitials (Some []) = lit ''A''
   \<and> nameParts [] = []
   \<and> (\<forall>w. w \<noteq> [] \<and> (\<forall>c \<in> set w. \<not> isSeparator c) \<longrightarrow> nameParts w = [w])
   \<and> (\<forall>a c b. isSeparator c \<longrightarrow> nameParts (a @ c # b) = nameParts a @ nameParts b)
   \<and> (\<forall>u. username = Some u \<longrightarrow>
         (\<forall>part \<in> set (nameParts u). part \<noteq> [] \<and> (\<forall>c \<in> set part. \<not> isSeparator c))
         \<and> (nameParts u = [] \<longrightarrow> getAdminInitials username = lit ''A'')
         \<and> (nameParts u \<noteq> [] \<longrightarrow>
              getAdminInitials username
                = concat (map (\<lambda>part. toUpperCaseUnit (hd part)) (take 2 (nameParts u))))
         \<and> ((\<forall>part \<in> set (take 2 (nameParts u)). length (toUpperCaseUnit (hd part)) = 1) \<longrightarrow>
              length (getAdminInitials username) \<le> 2)
         \<and> ((\<forall>part \<in> set (take 2 (nameParts u)). hd part < 0x0080) \<longrightarrow>
              length (getAdminInitials username) \<le> 2))"
proof -
  have A: "lit ''A'' \<noteq> []" "length (lit ''A'') = 1"
    by (simp_all add: lit_def)
  have nonempty: "getAdminInitials username \<noteq> []"
    using A by (simp add: getAdminInitials_eq spec_initials_empty split: option.splits)
  have bound: "length (getAdminInitials username) \<le> 6"
    using A spec_initials_length by (simp add: getAdminInitials_eq split: option.splits)
  have missing: "getAdminInitials None = lit ''A''" "getAdminInitials (Some []) = lit ''A''"
    by (simp_all add: getAdminInitials_def)
  have parts: "\<forall>u. username = Some u \<longrightarrow>
         (\<forall>part \<in> set (nameParts u). part \<noteq> [] \<and> (\<forall>c \<in> set part. \<not> isSeparator c))
         \<and> (nameParts u = [] \<longrightarrow> getAdminInitials username = lit ''A'')
         \<and> (nameParts u \<noteq> [] \<longrightarrow>
              getAdminInitials username
                = concat (map (\<lambda>part. toUpperCaseUnit (hd part)) (take 2 (nameParts u))))
         \<and> ((\<forall>part \<in> set (take 2 (nameParts u)). length (toUpperCaseUnit (hd part)) = 1) \<longrightarrow>
              length (getAdminInitials username) \<le> 2)
         \<and> ((\<forall>part \<in> set (take 2 (nameParts u)). hd part < 0x0080) \<longrightarrow>
              length (getAdminInitials username) \<le> 2)"
  proof (intro allI impI conjI)
    fix u assume u: "username = Some u"
    show "\<forall>part \<in> set (nameParts u). part \<noteq> [] \<and> (\<forall>c \<in> set part. \<not> isSeparator c)"
      using nameParts_member by blast
    show "getAdminInitials username = lit ''A''" if "nameParts u = []"
      using u that by (simp add: getAdminInitials_eq)
    show "getAdminInitials username
            = concat (map (\<lambda>part. toUpperCaseUnit (hd part)) (take 2 (nameParts u)))"
      if "nameParts u \<noteq> []"
      using u that by (simp add: getAdminInitials_eq spec_initials_def)
    show single: "length (getAdminInitials username) \<le> 2"
      if one: "\<forall>part \<in> set (take 2 (nameParts u)). length (toUpperCaseUnit (hd part)) = 1"
    proof -
      have "length (spec_initials (nameParts u)) \<le> 2"
        by (rule spec_initials_short) (use one in blast)
      with u A show ?thesis by (simp add: getAdminInitials_eq)
    qed
    show "length (getAdminInitials username) \<le> 2"
      if ascii: "\<forall>part \<in> set (take 2 (nameParts u)). hd part < 0x0080"
    proof (rule single)
      show "\<forall>part \<in> set (take 2 (nameParts u)). length (toUpperCaseUnit (hd part)) = 1"
        using ascii toUpperCaseUnit_ascii by blast
    qed
  qed
  have split: "nameParts [] = []"
    "\<forall>w. w \<noteq> [] \<and> (\<forall>c \<in> set w. \<not> isSeparator c) \<longrightarrow> nameParts w = [w]"
    "\<forall>a c b. isSeparator c \<longrightarrow> nameParts (a @ c # b) = nameParts a @ nameParts b"
    by (simp_all add: nameParts_def split_runs_word nameParts_append [unfolded nameParts_def])
  from nonempty bound missing split parts show ?thesis by (intro conjI)
qed

theorem C10_initials_witness:
  "getAdminInitials (Some (lit ''john.doe smith'')) = lit ''JD''
   \<and> length (getAdminInitials (Some (lit ''john.doe smith''))) \<le> 2
   \<and> getAdminInitials (Some (lit ''john.doe smith'')) \<noteq> []"
proof -
  note all = C10_initials [of "Some (lit ''john.doe smith'')"]
  note for_name = all [THEN conjunct2, THEN conjunct2, THEN conjunct2, THEN conjunct2,
      THEN conjunct2, THEN conjunct2, THEN conjunct2, THEN spec, THEN mp, OF refl]
  note initials = for_name [THEN conjunct2, THEN conjunct2, THEN conjunct1]
  note ascii = for_name [THEN conjunct2, THEN conjunct2, THEN conjunct2, THEN conjunct2]
  have p: "nameParts (lit ''john.doe smith'') \<noteq> []"
    and t: "take 2 (nameParts (lit ''john.doe smith'')) = [lit ''john'', lit ''doe'']"
    by (simp_all add: nameParts_john)
  have h: "hd (lit ''john'') = 0x006A" "hd (lit ''doe'') = 0x0064"
    by (simp_all add: lit_def)
  have jd: "lit ''JD'' = [0x004A, 0x0044]" by (simp add: lit_def)
  have "getAdminInitials (Some (lit ''john.doe smith'')) = lit ''JD''"
    using initials p by (simp add: t h upper_j_d jd)
  moreover have "length (getAdminInitials (Some (lit ''john.doe smith''))) \<le> 2"
    using ascii by (simp add: t h)
  moreover have "getAdminInitials (Some (lit ''john.doe smith'')) \<noteq> []"
    using all by (rule conjunct1)
  ultimately show ?thesis by simp
qed

text \<open>
  C10 as stated fails: the upper case of U+00DF is ``SS'', so two parts that start with
  it give four units.
\<close>

theorem C10_counterexample:
  "getAdminInitials (Some eszettName) = lit ''SSSS''
   \<and> length (getAdminInitials (Some eszettName)) = 4"
proof -
  have s: "toUpperCaseUnit 0x00DF = lit ''SS''"
    by (simp add: toUpperCaseUnit_def specialUpper_def lit_def)
  have n: "nameParts eszettName = [0x00DF # lit ''eta'', 0x00DF # lit ''lock'']"
    by (simp add: eszettName_def nameParts_def isSeparator_def isWhiteSpace_def lit_def)
  have "getAdminInitials (Some eszettName) = lit ''SS'' @ lit ''SS''"
    by (simp add: getAdminInitials_eq n spec_initials_def s)
  then show ?thesis by (simp add: lit_def)
qed

end
